theory Spec2Isabelle
  imports Complex_Main
begin

section \<open>Python values used by the calculator\<close>

text \<open>
  The calculator (\<^verbatim>\<open>Calculator.py\<close>) is a set of event handlers closed over a few
  widgets and two variables, \<^verbatim>\<open>current_solution\<close> and \<^verbatim>\<open>solution_params\<close>.
  The handlers are modelled as functions on a record of that state. Calls into the Python
  runtime and the libraries are either modelled here (the lexical and syntactic analysis
  of the equation text, name lookup, \<^verbatim>\<open>numpy.linspace\<close>) or taken as fields of a
  record of library functions (\<^verbatim>\<open>float\<close>, \<^verbatim>\<open>solve_ivp\<close>, plotting, the file system).

  Python strings are represented by their UTF-8 bytes.
\<close>

text \<open>
  A Python float is an IEEE 754 double: a finite value is the real number it denotes, and
  an operation gives the double nearest to its exact result, a tie going to the even
  significand. The sign of zero is not modelled.
\<close>

datatype pyfloat = Finite real | PosInf | NegInf | NaN

fun isfinite :: "pyfloat \<Rightarrow> bool" where
  "isfinite (Finite x) = True"
| "isfinite _ = False"

definition pow2 :: "int \<Rightarrow> real" where
  "pow2 e = (if 0 \<le> e then 2 ^ nat e else 1 / 2 ^ nat (- e))"

text \<open>
  The exponent \<open>e\<close> of the binade of a positive \<open>x\<close>, \<open>2 ^ e \<le> x < 2 ^ (e + 1)\<close>, kept
  between \<open>-1022\<close> (below it the doubles are subnormal) and \<open>1024\<close> (overflow).
\<close>

function binade_up :: "real \<Rightarrow> int \<Rightarrow> int" where
  "binade_up x e = (if e < 1024 \<and> pow2 (e + 1) \<le> x then binade_up x (e + 1) else e)"
  by pat_completeness auto
termination
  by (relation "measure (\<lambda>(x, e). nat (1024 - e))") auto

function binade_down :: "real \<Rightarrow> int \<Rightarrow> int" where
  "binade_down x e = (if - 1022 < e \<and> x < pow2 e then binade_down x (e - 1) else e)"
  by pat_completeness auto
termination
  by (relation "measure (\<lambda>(x, e). nat (e + 1022))") auto

declare binade_up.simps [simp del] binade_down.simps [simp del]

definition binade :: "real \<Rightarrow> int" where
  "binade x = (if 1 \<le> x then binade_up x 0 else binade_down x 0)"

definition round_half_even :: "real \<Rightarrow> int" where
  "round_half_even y =
     (let n = \<lfloor>y\<rfloor>; f = y - of_int n
      in if f < 1 / 2 then n else if 1 / 2 < f then n + 1 else if even n then n else n + 1)"

text \<open>
  Rounding to a double: the significand has 53 bits, so the doubles of the binade \<open>e\<close>
  are the multiples of \<open>2 ^ (e - 52)\<close>; a result of \<open>2 ^ 1024\<close> or more is an infinity.
\<close>

definition round_double :: "real \<Rightarrow> pyfloat" where
  "round_double x =
     (if x = 0 then Finite 0
      else let a = \<bar>x\<bar>;
               q = pow2 (binade a - 52);
               r = of_int (round_half_even (a / q)) * q
           in if pow2 1024 \<le> r then (if x < 0 then NegInf else PosInf)
              else Finite (if x < 0 then - r else r))"

text \<open>The comparison \<^verbatim>\<open>a <= b\<close> of two floats: false as soon as one of them is NaN.\<close>

fun float_le :: "pyfloat \<Rightarrow> pyfloat \<Rightarrow> bool" where
  "float_le NaN b = False"
| "float_le a NaN = False"
| "float_le NegInf b = True"
| "float_le a PosInf = True"
| "float_le PosInf b = False"
| "float_le a NegInf = False"
| "float_le (Finite x) (Finite y) = (x \<le> y)"

fun float_neg :: "pyfloat \<Rightarrow> pyfloat" where
  "float_neg (Finite x) = Finite (- x)"
| "float_neg PosInf = NegInf"
| "float_neg NegInf = PosInf"
| "float_neg NaN = NaN"

fun float_add :: "pyfloat \<Rightarrow> pyfloat \<Rightarrow> pyfloat" where
  "float_add NaN b = NaN"
| "float_add a NaN = NaN"
| "float_add PosInf NegInf = NaN"
| "float_add NegInf PosInf = NaN"
| "float_add PosInf b = PosInf"
| "float_add a PosInf = PosInf"
| "float_add NegInf b = NegInf"
| "float_add a NegInf = NegInf"
| "float_add (Finite x) (Finite y) = round_double (x + y)"

definition float_sub :: "pyfloat \<Rightarrow> pyfloat \<Rightarrow> pyfloat" where
  "float_sub a b = float_add a (float_neg b)"

fun float_mul :: "pyfloat \<Rightarrow> pyfloat \<Rightarrow> pyfloat" where
  "float_mul (Finite x) (Finite y) = round_double (x * y)"
| "float_mul NaN b = NaN"
| "float_mul a NaN = NaN"
| "float_mul (Finite x) b = (if x = 0 then NaN else if x < 0 then float_neg b else b)"
| "float_mul a (Finite y) = (if y = 0 then NaN else if y < 0 then float_neg a else a)"
| "float_mul PosInf b = b"
| "float_mul NegInf b = float_neg b"

text \<open>The product of an index and a float, and the quotient of a float by a positive count.\<close>

definition float_scale :: "nat \<Rightarrow> pyfloat \<Rightarrow> pyfloat" where
  "float_scale n a = float_mul (Finite (real n)) a"

fun float_div_nat :: "pyfloat \<Rightarrow> nat \<Rightarrow> pyfloat" where
  "float_div_nat (Finite x) n = round_double (x / real n)"
| "float_div_nat a n = a"

text \<open>
  \<^verbatim>\<open>numpy.linspace(start, stop, num)\<close> for \<open>num > 1\<close>, with the default
  \<^verbatim>\<open>endpoint=True\<close>: with \<^verbatim>\<open>div = num - 1\<close>, \<^verbatim>\<open>delta = stop - start\<close> and
  \<^verbatim>\<open>step = delta / div\<close>, item \<open>i\<close> is \<^verbatim>\<open>i * step + start\<close>, or
  \<^verbatim>\<open>(i / div) * delta + start\<close> when the step is zero, and the last item is then
  overwritten with \<^verbatim>\<open>stop\<close>.
\<close>

definition linspace :: "pyfloat \<Rightarrow> pyfloat \<Rightarrow> nat \<Rightarrow> pyfloat list" where
  "linspace start stop num =
     (let d = num - 1;
          delta = float_sub stop start;
          step = float_div_nat delta d;
          y = (if step = Finite 0
               then map (\<lambda>i. float_mul (float_div_nat (Finite (real i)) d) delta) [0..<num]
               else map (\<lambda>i. float_scale i step) [0..<num]);
          y' = map (\<lambda>v. float_add v start) y
      in if num > 1 then y'[num - 1 := stop] else y')"

text \<open>
  A raised exception: its class and its message (what \<^verbatim>\<open>str(err)\<close> returns).
\<close>

datatype exc_class = SyntaxError | NameError | ValueError | OtherError

datatype pyexc = PyExc exc_class string

fun py_str :: "pyexc \<Rightarrow> string" where
  "py_str (PyExc c m) = m"

definition name_error :: "string \<Rightarrow> pyexc" where
  \<open>name_error n = PyExc NameError (''name '' @ [CHR 0x27] @ n @ [CHR 0x27] @ '' is not defined'')\<close>

text \<open>\<^verbatim>\<open>str(xs)\<close> of a list of floats, given the text of each float.\<close>

fun join_comma :: "string list \<Rightarrow> string" where
  "join_comma [] = []"
| "join_comma [x] = x"
| "join_comma (x # xs) = x @ '', '' @ join_comma xs"

definition str_list :: "string list \<Rightarrow> string" where
  "str_list xs = ''['' @ join_comma xs @ '']''"

text \<open>Truth value of an optional string: \<^verbatim>\<open>None\<close> and \<^verbatim>\<open>""\<close> are false.\<close>

fun truthy :: "string option \<Rightarrow> bool" where
  "truthy None = False"
| "truthy (Some s) = (s \<noteq> [])"

text \<open>\<^verbatim>\<open>s.replace("^", "**")\<close>\<close>

fun replace_caret :: "string \<Rightarrow> string" where
  "replace_caret [] = []"
| "replace_caret (c # cs) =
     (if c = CHR ''^'' then ''**'' @ replace_caret cs else c # replace_caret cs)"

section \<open>The equation text as a Python expression\<close>

text \<open>
  The equation field is read-only: its text is only ever built by the calculator's buttons
  (\<^verbatim>\<open>agregar_simbolo\<close>) and emptied by \<^verbatim>\<open>limpiar_ecuacion\<close>. The analysis below is
  Python's for texts made of those button labels: the characters
  \<^verbatim>\<open>+ - * / ^ ( ) .\<close>, the digits and the letters of \<^verbatim>\<open>t y sin cos exp log\<close>.
  No Python keyword, no comma, no blank and no exponent can be typed with them.
\<close>

datatype token =
    NUMBER string | NAME string | ELLIPSIS | DOT | LPAR | RPAR
  | PLUS | MINUS | STAR | DOUBLESTAR | SLASH | DOUBLESLASH

datatype lexstate =
    Start | InName string | InInt string | InFrac string
  | Dot1 | Dot2 | Star1 | Slash1

definition is_digit :: "char \<Rightarrow> bool" where
  "is_digit c = (c \<in> set ''0123456789'')"

definition is_letter :: "char \<Rightarrow> bool" where
  "is_letter c = (c \<in> set ''tysincoexplg'')"

text \<open>
  A decimal integer literal with a leading zero is rejected, unless it is made of zeros
  only; a literal with a point may start with zeros.
\<close>

definition valid_int :: "string \<Rightarrow> bool" where
  "valid_int ds = (ds \<noteq> [] \<and> (hd ds \<noteq> CHR ''0'' \<or> (\<forall>d \<in> set ds. d = CHR ''0'')))"

text \<open>
  One step of the scanner: the tokens it emits and its next state, or \<open>None\<close> for a
  lexical error. A character that ends a token is then read from the start state.
\<close>

definition start_step :: "char \<Rightarrow> (token list \<times> lexstate) option" where
  "start_step c =
     (if is_letter c then Some ([], InName [c])
      else if is_digit c then Some ([], InInt [c])
      else if c = CHR ''.'' then Some ([], Dot1)
      else if c = CHR ''*'' then Some ([], Star1)
      else if c = CHR ''/'' then Some ([], Slash1)
      else if c = CHR ''+'' then Some ([PLUS], Start)
      else if c = CHR ''-'' then Some ([MINUS], Start)
      else if c = CHR ''('' then Some ([LPAR], Start)
      else if c = CHR '')'' then Some ([RPAR], Start)
      else None)"

definition emit_then :: "token list \<Rightarrow> (token list \<times> lexstate) option \<Rightarrow> (token list \<times> lexstate) option" where
  "emit_then ts r = (case r of None \<Rightarrow> None | Some (out, s) \<Rightarrow> Some (ts @ out, s))"

definition dot1_step :: "char \<Rightarrow> (token list \<times> lexstate) option" where
  "dot1_step c =
     (if is_digit c then Some ([], InFrac [CHR ''.'', c])
      else if c = CHR ''.'' then Some ([], Dot2)
      else emit_then [DOT] (start_step c))"

fun lex_step :: "lexstate \<Rightarrow> char \<Rightarrow> (token list \<times> lexstate) option" where
  "lex_step Start c = start_step c"
| "lex_step (InName n) c =
     (if is_letter c \<or> is_digit c then Some ([], InName (n @ [c]))
      else emit_then [NAME n] (start_step c))"
| "lex_step (InInt ds) c =
     (if is_digit c then Some ([], InInt (ds @ [c]))
      else if c = CHR ''.'' then Some ([], InFrac (ds @ [c]))
      else if valid_int ds then emit_then [NUMBER ds] (start_step c)
      else None)"
| "lex_step (InFrac ds) c =
     (if is_digit c then Some ([], InFrac (ds @ [c]))
      else emit_then [NUMBER ds] (start_step c))"
| "lex_step Dot1 c = dot1_step c"
| "lex_step Dot2 c =
     (if c = CHR ''.'' then Some ([ELLIPSIS], Start)
      else emit_then [DOT] (dot1_step c))"
| "lex_step Star1 c =
     (if c = CHR ''*'' then Some ([DOUBLESTAR], Start)
      else emit_then [STAR] (start_step c))"
| "lex_step Slash1 c =
     (if c = CHR ''/'' then Some ([DOUBLESLASH], Start)
      else emit_then [SLASH] (start_step c))"

fun lex_end :: "lexstate \<Rightarrow> token list option" where
  "lex_end Start = Some []"
| "lex_end (InName n) = Some [NAME n]"
| "lex_end (InInt ds) = (if valid_int ds then Some [NUMBER ds] else None)"
| "lex_end (InFrac ds) = Some [NUMBER ds]"
| "lex_end Dot1 = Some [DOT]"
| "lex_end Dot2 = Some [DOT, DOT]"
| "lex_end Star1 = Some [STAR]"
| "lex_end Slash1 = Some [SLASH]"

fun lex :: "lexstate \<Rightarrow> string \<Rightarrow> token list option" where
  "lex s [] = lex_end s"
| "lex s (c # cs) =
     (case lex_step s c of
        None \<Rightarrow> None
      | Some (out, s') \<Rightarrow> (case lex s' cs of None \<Rightarrow> None | Some ts \<Rightarrow> Some (out @ ts)))"

definition tokenize :: "string \<Rightarrow> token list option" where
  "tokenize src = lex Start src"

text \<open>The syntax tree of an expression, as Python's \<^verbatim>\<open>ast\<close> module names its nodes.\<close>

datatype unaryop = UAdd | USub

datatype operator = Add | Sub | Mult | Div | FloorDiv | Pow

datatype pyexpr =
    Constant string
  | Name string
  | EllipsisConst
  | EmptyTuple
  | UnaryOp unaryop pyexpr
  | BinOp pyexpr operator pyexpr
  | Attribute pyexpr string
  | Call0 pyexpr
  | Call1 pyexpr pyexpr
  | CallStar pyexpr pyexpr
  | CallDoubleStar pyexpr pyexpr

text \<open>
  The grammar of expressions over these tokens:
  \<^verbatim>\<open>
  sum:     sum ('+'|'-') term | term
  term:    term ('*'|'/'|'//') factor | factor
  factor:  ('+'|'-') factor | power
  power:   primary ['**' factor]
  primary: primary '.' NAME | primary '(' [argument] ')' | atom
  argument: '*' sum | '**' sum | sum
  atom:    NAME | NUMBER | '...' | '(' ')' | '(' sum ')'
  \<close>
  Each parser returns the tree and the tokens left. A parser that continues on the
  tokens left by another one checks that they are not more than it was given, which makes
  the recursion well-founded; \<open>parse_rest_le\<close> below shows the check never fails.
\<close>

definition addop :: "token \<Rightarrow> operator option" where
  "addop t = (if t = PLUS then Some Add else if t = MINUS then Some Sub else None)"

definition mulop :: "token \<Rightarrow> operator option" where
  "mulop t =
     (if t = STAR then Some Mult else if t = SLASH then Some Div
      else if t = DOUBLESLASH then Some FloorDiv else None)"

definition signop :: "token \<Rightarrow> unaryop option" where
  "signop t = (if t = PLUS then Some UAdd else if t = MINUS then Some USub else None)"

fun atom_of :: "token \<Rightarrow> pyexpr option" where
  "atom_of (NAME n) = Some (Name n)"
| "atom_of (NUMBER n) = Some (Constant n)"
| "atom_of ELLIPSIS = Some EllipsisConst"
| "atom_of _ = None"

fun name_of :: "token \<Rightarrow> string option" where
  "name_of (NAME n) = Some n"
| "name_of _ = None"

function
    parse_sum :: "token list \<Rightarrow> (pyexpr \<times> token list) option"
and parse_sum_rest :: "pyexpr \<Rightarrow> token list \<Rightarrow> (pyexpr \<times> token list) option"
and parse_term :: "token list \<Rightarrow> (pyexpr \<times> token list) option"
and parse_term_rest :: "pyexpr \<Rightarrow> token list \<Rightarrow> (pyexpr \<times> token list) option"
and parse_factor :: "token list \<Rightarrow> (pyexpr \<times> token list) option"
and parse_power :: "token list \<Rightarrow> (pyexpr \<times> token list) option"
and parse_atom :: "token list \<Rightarrow> (pyexpr \<times> token list) option"
and parse_trailers :: "pyexpr \<Rightarrow> token list \<Rightarrow> (pyexpr \<times> token list) option"
and parse_closing :: "(pyexpr \<Rightarrow> pyexpr) \<Rightarrow> token list \<Rightarrow> (pyexpr \<times> token list) option"
where
  "parse_sum ts =
     (case parse_term ts of
        None \<Rightarrow> None
      | Some (e, r) \<Rightarrow> if length r \<le> length ts then parse_sum_rest e r else None)"
| "parse_sum_rest e ts =
     (case ts of
        [] \<Rightarrow> Some (e, ts)
      | t # ts' \<Rightarrow>
          (case addop t of
             None \<Rightarrow> Some (e, ts)
           | Some op \<Rightarrow>
               (case parse_term ts' of
                  None \<Rightarrow> None
                | Some (e', r) \<Rightarrow>
                    if length r \<le> length ts' then parse_sum_rest (BinOp e op e') r else None)))"
| "parse_term ts =
     (case parse_factor ts of
        None \<Rightarrow> None
      | Some (e, r) \<Rightarrow> if length r \<le> length ts then parse_term_rest e r else None)"
| "parse_term_rest e ts =
     (case ts of
        [] \<Rightarrow> Some (e, ts)
      | t # ts' \<Rightarrow>
          (case mulop t of
             None \<Rightarrow> Some (e, ts)
           | Some op \<Rightarrow>
               (case parse_factor ts' of
                  None \<Rightarrow> None
                | Some (e', r) \<Rightarrow>
                    if length r \<le> length ts' then parse_term_rest (BinOp e op e') r else None)))"
| "parse_factor ts =
     (case ts of
        [] \<Rightarrow> None
      | t # ts' \<Rightarrow>
          (case signop t of
             None \<Rightarrow> parse_power ts
           | Some op \<Rightarrow>
               (case parse_factor ts' of None \<Rightarrow> None | Some (e, r) \<Rightarrow> Some (UnaryOp op e, r))))"
| "parse_power ts =
     (case parse_atom ts of
        None \<Rightarrow> None
      | Some (e, r) \<Rightarrow>
          (case r of
             [] \<Rightarrow> Some (e, r)
           | t # r' \<Rightarrow>
               if t = DOUBLESTAR then
                 (if length r' < length ts then
                    (case parse_factor r' of
                       None \<Rightarrow> None
                     | Some (e', r'') \<Rightarrow> Some (BinOp e Pow e', r''))
                  else None)
               else Some (e, r)))"
| "parse_atom ts =
     (case ts of
        [] \<Rightarrow> None
      | t # ts' \<Rightarrow>
          (case atom_of t of
             Some a \<Rightarrow> parse_trailers a ts'
           | None \<Rightarrow>
               if t = LPAR then
                 (case ts' of
                    [] \<Rightarrow> None
                  | t' # ts'' \<Rightarrow>
                      if t' = RPAR then parse_trailers EmptyTuple ts''
                      else parse_closing (\<lambda>e. e) ts')
               else None))"
| "parse_trailers e ts =
     (case ts of
        [] \<Rightarrow> Some (e, ts)
      | t # ts' \<Rightarrow>
          if t = DOT then
            (case ts' of
               [] \<Rightarrow> None
             | t' # ts'' \<Rightarrow>
                 (case name_of t' of
                    None \<Rightarrow> None
                  | Some n \<Rightarrow> parse_trailers (Attribute e n) ts''))
          else if t = LPAR then
            (case ts' of
               [] \<Rightarrow> None
             | t' # ts'' \<Rightarrow>
                 if t' = RPAR then parse_trailers (Call0 e) ts''
                 else if t' = STAR then parse_closing (CallStar e) ts''
                 else if t' = DOUBLESTAR then parse_closing (CallDoubleStar e) ts''
                 else parse_closing (Call1 e) ts')
          else Some (e, ts))"
| "parse_closing mk ts =
     (case parse_sum ts of
        None \<Rightarrow> None
      | Some (e, r) \<Rightarrow>
          (case r of
             [] \<Rightarrow> None
           | t # r' \<Rightarrow>
               if t = RPAR \<and> length r' < length ts then parse_trailers (mk e) r' else None))"
  by pat_completeness auto
termination
proof (relation "measures
   [\<lambda>x. case x of
        Inl (Inl (Inl ts)) \<Rightarrow> length ts
      | Inl (Inl (Inr (e, ts))) \<Rightarrow> length ts
      | Inl (Inr (Inl ts)) \<Rightarrow> length ts
      | Inl (Inr (Inr (e, ts))) \<Rightarrow> length ts
      | Inr (Inl (Inl ts)) \<Rightarrow> length ts
      | Inr (Inl (Inr ts)) \<Rightarrow> length ts
      | Inr (Inr (Inl ts)) \<Rightarrow> length ts
      | Inr (Inr (Inr (Inl (e, ts)))) \<Rightarrow> length ts
      | Inr (Inr (Inr (Inr (mk, ts)))) \<Rightarrow> length ts,
    \<lambda>x. case x of
        Inl (Inl (Inl ts)) \<Rightarrow> 7
      | Inl (Inl (Inr (e, ts))) \<Rightarrow> 6
      | Inl (Inr (Inl ts)) \<Rightarrow> 5
      | Inl (Inr (Inr (e, ts))) \<Rightarrow> 4
      | Inr (Inl (Inl ts)) \<Rightarrow> 3
      | Inr (Inl (Inr ts)) \<Rightarrow> 2
      | Inr (Inr (Inl ts)) \<Rightarrow> 1
      | Inr (Inr (Inr (Inl (e, ts)))) \<Rightarrow> 0
      | Inr (Inr (Inr (Inr (mk, ts)))) \<Rightarrow> 8]", goal_cases)
qed auto

declare parse_sum.simps [simp del] parse_sum_rest.simps [simp del] parse_term.simps [simp del]
  parse_term_rest.simps [simp del] parse_factor.simps [simp del] parse_power.simps [simp del]
  parse_atom.simps [simp del] parse_trailers.simps [simp del] parse_closing.simps [simp del]

definition parse_expression :: "token list \<Rightarrow> pyexpr option" where
  "parse_expression ts =
     (case parse_sum ts of
        None \<Rightarrow> None
      | Some (e, r) \<Rightarrow> if r = [] then Some e else None)"

section \<open>Building and calling the right-hand side\<close>

text \<open>
  \<^verbatim>\<open>eval(f"lambda t, y: {expr_str}", {"sin": ..., "cos": ..., "exp": ..., "log": ...})\<close>
  compiles the text and evaluates the resulting \<^verbatim>\<open>lambda\<close> expression, which builds a
  function object without evaluating its body: no name of the body is looked up here.
\<close>

datatype callable = Lambda pyexpr

definition py_eval_lambda :: "string \<Rightarrow> pyexc + callable" where
  "py_eval_lambda expr_str =
     (case tokenize expr_str of
        None \<Rightarrow> Inl (PyExc SyntaxError ''invalid syntax'')
      | Some ts \<Rightarrow>
          (case parse_expression ts of
             None \<Rightarrow> Inl (PyExc SyntaxError ''invalid syntax'')
           | Some body \<Rightarrow> Inr (Lambda body)))"

text \<open>
  Calling the function evaluates the body, operands from left to right. What the
  operations do on values is left to a record of operations; name lookup is Python's: the
  parameters \<^verbatim>\<open>t\<close> and \<^verbatim>\<open>y\<close>, then the dictionary given to \<^verbatim>\<open>eval\<close>, then the
  built-in names, which \<^verbatim>\<open>eval\<close> adds to that dictionary.
\<close>

record 'v pyops =
  op_constant :: "string \<Rightarrow> 'v"
  op_ellipsis :: "'v"
  op_empty_tuple :: "'v"
  op_unary :: "unaryop \<Rightarrow> 'v \<Rightarrow> pyexc + 'v"
  op_binary :: "operator \<Rightarrow> 'v \<Rightarrow> 'v \<Rightarrow> pyexc + 'v"
  op_getattr :: "'v \<Rightarrow> string \<Rightarrow> pyexc + 'v"
  op_call :: "'v \<Rightarrow> 'v list \<Rightarrow> pyexc + 'v"
  op_call_star :: "'v \<Rightarrow> 'v \<Rightarrow> pyexc + 'v"
  op_call_double_star :: "'v \<Rightarrow> 'v \<Rightarrow> pyexc + 'v"
  np_sin :: "'v"
  np_cos :: "'v"
  np_exp :: "'v"
  np_log :: "'v"
  builtins :: "string \<Rightarrow> 'v option"
  of_float :: "pyfloat \<Rightarrow> 'v"
  of_array :: "pyfloat list \<Rightarrow> 'v"

definition eval_globals :: "'v pyops \<Rightarrow> string \<Rightarrow> 'v option" where
  "eval_globals P =
     map_of [(''sin'', np_sin P), (''cos'', np_cos P), (''exp'', np_exp P), (''log'', np_log P)]"

definition lookup_name :: "'v pyops \<Rightarrow> 'v \<Rightarrow> 'v \<Rightarrow> string \<Rightarrow> 'v option" where
  "lookup_name P t y n =
     (if n = ''t'' then Some t
      else if n = ''y'' then Some y
      else case eval_globals P n of Some v \<Rightarrow> Some v | None \<Rightarrow> builtins P n)"

definition and_then :: "pyexc + 'a \<Rightarrow> ('a \<Rightarrow> pyexc + 'b) \<Rightarrow> pyexc + 'b" where
  "and_then r f = (case r of Inl err \<Rightarrow> Inl err | Inr v \<Rightarrow> f v)"

fun eval_expr :: "'v pyops \<Rightarrow> 'v \<Rightarrow> 'v \<Rightarrow> pyexpr \<Rightarrow> pyexc + 'v" where
  "eval_expr P t y (Constant c) = Inr (op_constant P c)"
| "eval_expr P t y (Name n) =
     (case lookup_name P t y n of None \<Rightarrow> Inl (name_error n) | Some v \<Rightarrow> Inr v)"
| "eval_expr P t y EllipsisConst = Inr (op_ellipsis P)"
| "eval_expr P t y EmptyTuple = Inr (op_empty_tuple P)"
| "eval_expr P t y (UnaryOp op e) = and_then (eval_expr P t y e) (op_unary P op)"
| "eval_expr P t y (BinOp a op b) =
     and_then (eval_expr P t y a) (\<lambda>va. and_then (eval_expr P t y b) (\<lambda>vb. op_binary P op va vb))"
| "eval_expr P t y (Attribute e n) = and_then (eval_expr P t y e) (\<lambda>v. op_getattr P v n)"
| "eval_expr P t y (Call0 f) = and_then (eval_expr P t y f) (\<lambda>vf. op_call P vf [])"
| "eval_expr P t y (Call1 f a) =
     and_then (eval_expr P t y f) (\<lambda>vf. and_then (eval_expr P t y a) (\<lambda>va. op_call P vf [va]))"
| "eval_expr P t y (CallStar f a) =
     and_then (eval_expr P t y f) (\<lambda>vf. and_then (eval_expr P t y a) (\<lambda>va. op_call_star P vf va))"
| "eval_expr P t y (CallDoubleStar f a) =
     and_then (eval_expr P t y f)
       (\<lambda>vf. and_then (eval_expr P t y a) (\<lambda>va. op_call_double_star P vf va))"

fun invoke :: "'v pyops \<Rightarrow> callable \<Rightarrow> 'v \<Rightarrow> 'v \<Rightarrow> pyexc + 'v" where
  "invoke P (Lambda body) t y = eval_expr P t y body"

text \<open>
  The first call that \<^verbatim>\<open>solve_ivp\<close> makes of the function: at the initial time, a
  float, and the initial state, an array holding \<open>y0\<close>.
\<close>

definition first_call :: "'v pyops \<Rightarrow> callable \<Rightarrow> pyfloat \<Rightarrow> pyfloat \<Rightarrow> pyexc + 'v" where
  "first_call P fn t0 y0 = invoke P fn (of_float P t0) (of_array P [y0])"

text \<open>The names an expression mentions, in the order their lookups happen.\<close>

fun names :: "pyexpr \<Rightarrow> string list" where
  "names (Constant c) = []"
| "names (Name n) = [n]"
| "names EllipsisConst = []"
| "names EmptyTuple = []"
| "names (UnaryOp op e) = names e"
| "names (BinOp a op b) = names a @ names b"
| "names (Attribute e n) = names e"
| "names (Call0 f) = names f"
| "names (Call1 f a) = names f @ names a"
| "names (CallStar f a) = names f @ names a"
| "names (CallDoubleStar f a) = names f @ names a"

text \<open>
  With operations that do not raise, a call raises \<^verbatim>\<open>NameError\<close> for the first name,
  in the order of evaluation, that does not resolve.
\<close>

definition total_ops :: "'v pyops \<Rightarrow> bool" where
  "total_ops P =
     ((\<forall>op v. \<exists>r. op_unary P op v = Inr r)
      \<and> (\<forall>op a b. \<exists>r. op_binary P op a b = Inr r)
      \<and> (\<forall>v n. \<exists>r. op_getattr P v n = Inr r)
      \<and> (\<forall>f xs. \<exists>r. op_call P f xs = Inr r)
      \<and> (\<forall>f x. \<exists>r. op_call_star P f x = Inr r)
      \<and> (\<forall>f x. \<exists>r. op_call_double_star P f x = Inr r))"

text \<open>Writing other names for the names of a text: on its tokens and on its tree.\<close>

fun rename_token :: "(string \<Rightarrow> string) \<Rightarrow> token \<Rightarrow> token" where
  "rename_token f (NAME n) = NAME (f n)"
| "rename_token f t = t"

fun rename_expr :: "(string \<Rightarrow> string) \<Rightarrow> pyexpr \<Rightarrow> pyexpr" where
  "rename_expr f (Constant c) = Constant c"
| "rename_expr f (Name n) = Name (f n)"
| "rename_expr f EllipsisConst = EllipsisConst"
| "rename_expr f EmptyTuple = EmptyTuple"
| "rename_expr f (UnaryOp op e) = UnaryOp op (rename_expr f e)"
| "rename_expr f (BinOp a op b) = BinOp (rename_expr f a) op (rename_expr f b)"
| "rename_expr f (Attribute e n) = Attribute (rename_expr f e) (f n)"
| "rename_expr f (Call0 g) = Call0 (rename_expr f g)"
| "rename_expr f (Call1 g a) = Call1 (rename_expr f g) (rename_expr f a)"
| "rename_expr f (CallStar g a) = CallStar (rename_expr f g) (rename_expr f a)"
| "rename_expr f (CallDoubleStar g a) = CallDoubleStar (rename_expr f g) (rename_expr f a)"

definition rename_result ::
  "(string \<Rightarrow> string) \<Rightarrow> (pyexpr \<times> token list) option \<Rightarrow> (pyexpr \<times> token list) option" where
  "rename_result f r =
     map_option (\<lambda>(e, ts). (rename_expr f e, map (rename_token f) ts)) r"

definition whitelist :: "string set" where
  "whitelist = {''t'', ''y'', ''sin'', ''cos'', ''exp'', ''log''}"

section \<open>The libraries\<close>

text \<open>
  What the handlers call outside the program, for a solution object of type \<open>'s\<close>
  (the result of \<^verbatim>\<open>solve_ivp\<close>). A call that can raise returns the exception.
\<close>

record 's pylib =
  py_float :: "string \<Rightarrow> pyfloat option"
  solve_ivp :: "callable \<Rightarrow> pyfloat \<Rightarrow> pyfloat \<Rightarrow> pyfloat \<Rightarrow> pyexc + 's"
  success :: "'s \<Rightarrow> bool"
  y_last :: "'s \<Rightarrow> pyfloat"
  dense :: "'s \<Rightarrow> pyfloat \<Rightarrow> pyfloat"
  float_str :: "pyfloat \<Rightarrow> string"
  float_6f :: "pyfloat \<Rightarrow> string"
  round_3 :: "pyfloat \<Rightarrow> pyfloat"
  named_temporary_file :: "pyexc + string"
  savefig :: "string \<Rightarrow> pyfloat list \<Rightarrow> pyfloat list \<Rightarrow> string \<Rightarrow> pyexc option"
  gettempdir :: "string"
  path_join :: "string \<Rightarrow> string \<Rightarrow> string"
  makedirs :: "string \<Rightarrow> pyexc option"
  now_strftime :: "string"
  plot_figure :: "pyfloat list \<Rightarrow> pyfloat list \<Rightarrow> string \<Rightarrow> pyexc option"
  write_file :: "string \<Rightarrow> string \<Rightarrow> pyexc option"
  webbrowser_open :: "string \<Rightarrow> pyexc option"

text \<open>
  \<^item> \<open>py_float s\<close> is \<^verbatim>\<open>float(s)\<close>, \<open>None\<close> when it raises \<^verbatim>\<open>ValueError\<close>;
  \<^item> \<open>solve_ivp fn t0 tf y0\<close> is
    \<^verbatim>\<open>solve_ivp(fn, (t0, tf), [y0], dense_output=True, method='RK45', rtol=1e-5)\<close>;
  \<^item> \<open>success sol\<close> is \<^verbatim>\<open>sol.success\<close>, \<open>y_last sol\<close> is \<^verbatim>\<open>sol.y[0][-1]\<close> and
    \<open>dense sol t\<close> is the value at \<open>t\<close> of the interpolant \<^verbatim>\<open>sol.sol\<close>;
  \<^item> \<open>float_str x\<close> is \<^verbatim>\<open>str(x)\<close>, \<open>float_6f x\<close> is \<^verbatim>\<open>f"{x:.6f}"\<close>, \<open>round_3 x\<close>
    is \<^verbatim>\<open>round(x, 3)\<close>;
  \<^item> \<open>named_temporary_file\<close> is the name of the file made by
    \<^verbatim>\<open>tempfile.NamedTemporaryFile(delete=False, suffix='.png')\<close>, and
    \<open>savefig path ts ys title\<close> stands for the \<^verbatim>\<open>matplotlib\<close> calls that draw the curve
    and save it there;
  \<^item> \<open>plot_figure ts ys title\<close> stands for the \<^verbatim>\<open>matplotlib\<close> calls of the export,
    \<open>now_strftime\<close> for \<^verbatim>\<open>datetime.now().strftime("%Y%m%d_%H%M%S")\<close>, and
    \<open>write_file path text\<close> for opening the file and writing the text.
\<close>

text \<open>
  \<^verbatim>\<open>solve_ivp\<close> with the method \<^verbatim>\<open>RK45\<close> evaluates the function at the initial point
  when it sets the solver up, before any step: for finite \<open>t0\<close>, \<open>tf\<close> and \<open>y0\<close>, an
  exception raised by that call leaves \<^verbatim>\<open>solve_ivp\<close>. A library with this behaviour:
\<close>

definition solver_calls_function :: "'s pylib \<Rightarrow> 'v pyops \<Rightarrow> bool" where
  "solver_calls_function L P =
     (\<forall>fn t0 tf y0 err.
        isfinite t0 \<and> isfinite tf \<and> isfinite y0 \<and> first_call P fn t0 y0 = Inl err
          \<longrightarrow> solve_ivp L fn t0 tf y0 = Inl err)"

section \<open>The state of the calculator\<close>

datatype color = GREEN_700 | RED_600

record params =
  param_t0 :: pyfloat
  param_tf :: pyfloat
  param_equation :: string

record 's calc_state =
  ecuacion_input :: "string option"
  t0_input :: "string option"
  y0_input :: "string option"
  tf_input :: "string option"
  resultado_value :: string
  resultado_color :: color
  grafica_visible :: bool
  grafica_src :: "string option"
  boton_grafica_disabled :: bool
  estado_grafica :: string
  current_solution :: "'s option"
  solution_params :: params

definition estado_inicial :: "'s calc_state" where
  "estado_inicial =
     \<lparr>ecuacion_input = None, t0_input = None, y0_input = None, tf_input = None,
      resultado_value = [], resultado_color = GREEN_700,
      grafica_visible = False, grafica_src = None,
      boton_grafica_disabled = True, estado_grafica = [],
      current_solution = None,
      solution_params = \<lparr>param_t0 = Finite 0, param_tf = Finite 0, param_equation = []\<rparr>\<rparr>"

definition error_prefix :: string where
  \<open>error_prefix = [CHR 0xE2, CHR 0x9D, CHR 0x8C] @ '' Error: ''\<close>

definition show_error :: "string \<Rightarrow> 's calc_state \<Rightarrow> 's calc_state" where
  "show_error message st =
     st\<lparr>resultado_value := error_prefix @ message, resultado_color := RED_600\<rparr>"

definition show_success :: "string \<Rightarrow> 's calc_state \<Rightarrow> 's calc_state" where
  "show_success message st =
     st\<lparr>resultado_value := message, resultado_color := GREEN_700\<rparr>"

subsection \<open>The buttons\<close>

definition botones :: "string list list" where
  "botones =
     [[''+'', ''-'', ''*'', ''/'', ''^''],
      [''t'', ''y'', ''('', '')'', ''.''],
      [''0'', ''1'', ''2'', ''3'', ''4''],
      [''5'', ''6'', ''7'', ''8'', ''9''],
      [''sin(t)'', ''cos(t)'', ''exp(t)'', ''log(t)'']]"

definition agregar_simbolo :: "string \<Rightarrow> 's calc_state \<Rightarrow> 's calc_state" where
  "agregar_simbolo simbolo st =
     st\<lparr>ecuacion_input :=
          Some ((case ecuacion_input st of None \<Rightarrow> [] | Some v \<Rightarrow> v) @ simbolo)\<rparr>"

definition limpiar_ecuacion :: "'s calc_state \<Rightarrow> 's calc_state" where
  "limpiar_ecuacion st =
     st\<lparr>ecuacion_input := Some [], resultado_value := [],
        t0_input := Some [], y0_input := Some [], tf_input := Some [],
        grafica_visible := False, current_solution := None,
        boton_grafica_disabled := True\<rparr>"

text \<open>The texts a sequence of button presses can leave in the equation field.\<close>

inductive button_word :: "string \<Rightarrow> bool" where
  empty: "button_word []"
| press: "button_word w \<Longrightarrow> b \<in> set (concat botones) \<Longrightarrow> button_word (w @ b)"

section \<open>The export to a chart document\<close>

text \<open>The four fixed pieces of the document, around the three texts put into it.\<close>

definition html_1 :: string where
  \<open>html_1 = concat
    [''\<newline>'',
     ''            <!DOCTYPE html>\<newline>'',
     ''            <html>\<newline>'',
     ''            <head>\<newline>'',
     ''                <title>Gr'' @ [CHR 0xC3] @ [CHR 0xA1] @ ''fica de Ecuaci'' @ [CHR 0xC3] @ [CHR 0xB3] @ ''n Diferencial</title>\<newline>'',
     ''                <script src="https://cdn.jsdelivr.net/npm/chart.js"></script>\<newline>'',
     ''                <style>\<newline>'',
     ''                    body { font-family: Arial, sans-serif; margin: 20px; }\<newline>'',
     ''                    .container { max-width: 800px; margin: 0 auto; }\<newline>'',
     ''                    h2 { color: #2c3e50; }\<newline>'',
     ''                    .equation { font-style: italic; margin-bottom: 20px; }\<newline>'',
     ''                </style>\<newline>'',
     ''            </head>\<newline>'',
     ''            <body>\<newline>'',
     ''                <div class="container">\<newline>'',
     ''                    <h2>Soluci'' @ [CHR 0xC3] @ [CHR 0xB3] @ ''n de la Ecuaci'' @ [CHR 0xC3] @ [CHR 0xB3] @ ''n Diferencial</h2>\<newline>'',
     ''                    <div class="equation">y' = '']\<close>

definition html_2 :: string where
  \<open>html_2 = concat
    [''</div>\<newline>'',
     ''                    <canvas id="solutionChart" width="800" height="400"></canvas>\<newline>'',
     ''                </div>\<newline>'',
     ''                \<newline>'',
     ''                <script>\<newline>'',
     ''                    const ctx = document.getElementById('solutionChart').getContext('2d');\<newline>'',
     ''                    const chart = new Chart(ctx, {\<newline>'',
     ''                        type: 'line',\<newline>'',
     ''                        data: {\<newline>'',
     ''                            labels: '']\<close>

definition html_3 :: string where
  \<open>html_3 = concat
    ['',\<newline>'',
     ''                            datasets: [{\<newline>'',
     ''                                label: 'y(t)',\<newline>'',
     ''                                data: '']\<close>

definition html_4 :: string where
  \<open>html_4 = concat
    ['',\<newline>'',
     ''                                borderColor: 'rgba(65, 105, 225, 1)',\<newline>'',
     ''                                backgroundColor: 'rgba(65, 105, 225, 0.1)',\<newline>'',
     ''                                borderWidth: 2,\<newline>'',
     ''                                tension: 0.3,\<newline>'',
     ''                                pointRadius: 0\<newline>'',
     ''                            }]\<newline>'',
     ''                        },\<newline>'',
     ''                        options: {\<newline>'',
     ''                            responsive: true,\<newline>'',
     ''                            plugins: {\<newline>'',
     ''                                title: {\<newline>'',
     ''                                    display: true,\<newline>'',
     ''                                    text: 'Soluci'' @ [CHR 0xC3] @ [CHR 0xB3] @ ''n de la Ecuaci'' @ [CHR 0xC3] @ [CHR 0xB3] @ ''n Diferencial'\<newline>'',
     ''                                },\<newline>'',
     ''                                tooltip: {\<newline>'',
     ''                                    mode: 'index',\<newline>'',
     ''                                    intersect: false,\<newline>'',
     ''                                }\<newline>'',
     ''                            },\<newline>'',
     ''                            scales: {\<newline>'',
     ''                                x: {\<newline>'',
     ''                                    title: {\<newline>'',
     ''                                        display: true,\<newline>'',
     ''                                        text: 't'\<newline>'',
     ''                                    }\<newline>'',
     ''                                },\<newline>'',
     ''                                y: {\<newline>'',
     ''                                    title: {\<newline>'',
     ''                                        display: true,\<newline>'',
     ''                                        text: 'y(t)'\<newline>'',
     ''                                    }\<newline>'',
     ''                                }\<newline>'',
     ''                            }\<newline>'',
     ''                        }\<newline>'',
     ''                    });\<newline>'',
     ''                </script>\<newline>'',
     ''            </body>\<newline>'',
     ''            </html>\<newline>'',
     ''            '']\<close>

definition html_content :: "'s pylib \<Rightarrow> string \<Rightarrow> pyfloat list \<Rightarrow> pyfloat list \<Rightarrow> string" where
  "html_content L ecuacion t_vals y_vals =
     html_1 @ ecuacion @ html_2
       @ str_list (map (\<lambda>t. float_str L (round_3 L t)) t_vals) @ html_3
       @ str_list (map (float_str L) y_vals) @ html_4"

text \<open>
  Both the export and the image inside the window sample the stored solution in the same
  two lines: \<^verbatim>\<open>t_vals = np.linspace(t0, tf, 500)\<close> and
  \<^verbatim>\<open>y_vals = sol.sol(t_vals)[0]\<close>, the interpolant evaluated at each item of
  \<^verbatim>\<open>t_vals\<close>.
\<close>

definition curve_samples :: "'s pylib \<Rightarrow> pyfloat \<Rightarrow> pyfloat \<Rightarrow> 's \<Rightarrow> pyfloat list \<times> pyfloat list" where
  "curve_samples L t0 tf sol =
     (let t_vals = linspace t0 tf 500;
          y_vals = map (dense L sol) t_vals
      in (t_vals, y_vals))"

definition plot_title :: "string \<Rightarrow> string" where
  \<open>plot_title ecuacion = ''Soluci'' @ [CHR 0xC3, CHR 0xB3] @ ''n de y' = '' @ ecuacion\<close>

text \<open>
  \<^verbatim>\<open>crear_grafica_externa\<close> returns the path of the file it wrote, or \<^verbatim>\<open>None\<close>; the
  model returns the text written to that file with the path. Any exception raised on the
  way is caught and gives \<^verbatim>\<open>None\<close>.
\<close>

definition crear_grafica_externa :: "'s pylib \<Rightarrow> 's calc_state \<Rightarrow> (string \<times> string) option" where
  "crear_grafica_externa L st =
     (let t0 = param_t0 (solution_params st);
          tf = param_tf (solution_params st);
          ecuacion = param_equation (solution_params st)
      in case current_solution st of
           None \<Rightarrow> None
         | Some sol \<Rightarrow>
             let temp_dir = path_join L (gettempdir L) ''calcediff''
             in case makedirs L temp_dir of
                  Some err \<Rightarrow> None
                | None \<Rightarrow>
                    let file_path =
                          path_join L temp_dir (''grafica_'' @ now_strftime L @ ''.html'');
                        (t_vals, y_vals) = curve_samples L t0 tf sol
                    in case plot_figure L t_vals y_vals (plot_title ecuacion) of
                         Some err \<Rightarrow> None
                       | None \<Rightarrow>
                           let html = html_content L ecuacion t_vals y_vals
                           in case write_file L file_path html of
                                Some err \<Rightarrow> None
                              | None \<Rightarrow> Some (file_path, html))"

text \<open>
  \<^verbatim>\<open>mostrar_grafica_externa\<close> starts a thread that runs \<^verbatim>\<open>worker\<close>; the model runs
  the worker to its end before the handler returns.
\<close>

definition worker :: "'s pylib \<Rightarrow> 's calc_state \<Rightarrow> 's calc_state" where
  \<open>worker L st =
     (let st' =
        (case crear_grafica_externa L st of
           Some (file_path, html) \<Rightarrow>
             (case webbrowser_open L (''file://'' @ file_path) of
                None \<Rightarrow>
                  st\<lparr>estado_grafica := ''Gr'' @ [CHR 0xC3, CHR 0xA1] @ ''fica abierta en navegador''\<rparr>
              | Some err \<Rightarrow> st\<lparr>estado_grafica := ''Error: '' @ py_str err\<rparr>)
         | None \<Rightarrow>
             st\<lparr>estado_grafica := ''Error al generar gr'' @ [CHR 0xC3, CHR 0xA1] @ ''fica''\<rparr>)
      in st'\<lparr>boton_grafica_disabled := False\<rparr>)\<close>

definition msg_no_solution :: string where
  \<open>msg_no_solution = ''Primero debes resolver la ecuaci'' @ [CHR 0xC3, CHR 0xB3] @ ''n''\<close>

definition mostrar_grafica_externa :: "'s pylib \<Rightarrow> 's calc_state \<Rightarrow> 's calc_state" where
  \<open>mostrar_grafica_externa L st =
     (if current_solution st = None then show_error msg_no_solution st
      else worker L
             (st\<lparr>boton_grafica_disabled := True,
                 estado_grafica := ''Generando gr'' @ [CHR 0xC3, CHR 0xA1] @ ''fica...''\<rparr>))\<close>

section \<open>Solving\<close>

text \<open>
  \<^verbatim>\<open>resolver_ecuacion\<close> first checks its inputs. Each way of leaving the handler before a
  solution is stored is a constructor of \<open>failure\<close>: the five checks of the inputs, a
  solver that reports no success (\<open>NotSolved\<close>), and an exception that only the
  handler's outermost \<^verbatim>\<open>except Exception\<close> catches (\<open>Uncaught\<close>).
\<close>

datatype failure =
    MissingField
  | SyntaxErr
  | UnknownName string
  | NotANumber
  | InvalidRange
  | NotSolved
  | Uncaught pyexc

record request =
  req_fn :: callable
  req_t0 :: pyfloat
  req_y0 :: pyfloat
  req_tf :: pyfloat
  req_text :: string

text \<open>The text of a field whose value is not \<^verbatim>\<open>None\<close>.\<close>

fun field_text :: "string option \<Rightarrow> string" where
  "field_text None = []"
| "field_text (Some s) = s"

definition compile_equation :: "string \<Rightarrow> failure + callable" where
  "compile_equation text =
     (case py_eval_lambda (replace_caret text) of
        Inr expr_lambda \<Rightarrow> Inr expr_lambda
      | Inl (PyExc c m) \<Rightarrow>
          if c = SyntaxError then Inl SyntaxErr
          else if c = NameError then Inl (UnknownName m)
          else Inl (Uncaught (PyExc c m)))"

definition convert_values :: "'s pylib \<Rightarrow> 's calc_state \<Rightarrow> (pyfloat \<times> pyfloat \<times> pyfloat) option" where
  "convert_values L st =
     (case py_float L (field_text (t0_input st)) of
        None \<Rightarrow> None
      | Some t0 \<Rightarrow>
          (case py_float L (field_text (y0_input st)) of
             None \<Rightarrow> None
           | Some y0 \<Rightarrow>
               (case py_float L (field_text (tf_input st)) of
                  None \<Rightarrow> None
                | Some tf \<Rightarrow> Some (t0, y0, tf))))"

definition validate_inputs :: "'s pylib \<Rightarrow> 's calc_state \<Rightarrow> failure + request" where
  "validate_inputs L st =
     (if \<not> truthy (ecuacion_input st) \<or> \<not> truthy (t0_input st)
         \<or> \<not> truthy (y0_input st) \<or> \<not> truthy (tf_input st)
      then Inl MissingField
      else case compile_equation (field_text (ecuacion_input st)) of
             Inl f \<Rightarrow> Inl f
           | Inr expr_lambda \<Rightarrow>
               (case convert_values L st of
                  None \<Rightarrow> Inl NotANumber
                | Some (t0, y0, tf) \<Rightarrow>
                    if float_le tf t0 then Inl InvalidRange
                    else Inr \<lparr>req_fn = expr_lambda, req_t0 = t0, req_y0 = y0, req_tf = tf,
                              req_text = field_text (ecuacion_input st)\<rparr>))"

fun failure_message :: "failure \<Rightarrow> string" where
  \<open>failure_message MissingField = ''Todos los campos son obligatorios''\<close>
| \<open>failure_message SyntaxErr =
     ''La ecuaci'' @ [CHR 0xC3, CHR 0xB3] @ ''n tiene errores de sintaxis''\<close>
| \<open>failure_message (UnknownName m) = ''Variable no definida: '' @ m\<close>
| \<open>failure_message NotANumber =
     ''Los valores deben ser n'' @ [CHR 0xC3, CHR 0xBA] @ ''meros''\<close>
| \<open>failure_message InvalidRange =
     ''El tiempo final (tf) debe ser mayor que el tiempo inicial (t0)''\<close>
| \<open>failure_message NotSolved =
     ''No se pudo resolver la ecuaci'' @ [CHR 0xC3, CHR 0xB3] @ ''n diferencial''\<close>
| \<open>failure_message (Uncaught err) = py_str err\<close>

text \<open>Lines 271 to 324: the inputs are checked and the equation is integrated.\<close>

definition solve_request :: "'s pylib \<Rightarrow> 's calc_state \<Rightarrow> failure + (request \<times> 's)" where
  "solve_request L st =
     (case validate_inputs L st of
        Inl f \<Rightarrow> Inl f
      | Inr rq \<Rightarrow>
          (case solve_ivp L (req_fn rq) (req_t0 rq) (req_tf rq) (req_y0 rq) of
             Inl err \<Rightarrow> Inl (Uncaught err)
           | Inr sol \<Rightarrow> if \<not> success L sol then Inl NotSolved else Inr (rq, sol)))"

definition success_message :: "'s pylib \<Rightarrow> pyfloat \<Rightarrow> pyfloat \<Rightarrow> string" where
  \<open>success_message L tf y_final =
     [CHR 0xE2, CHR 0x9C, CHR 0x85] @ '' y('' @ float_str L tf @ '') ''
       @ [CHR 0xE2, CHR 0x89, CHR 0x88] @ '' '' @ float_6f L y_final\<close>

text \<open>Lines 326 to 340: the solution and its parameters are stored, the result shown.\<close>

definition store_solution :: "'s pylib \<Rightarrow> request \<Rightarrow> 's \<Rightarrow> 's calc_state \<Rightarrow> 's calc_state" where
  \<open>store_solution L rq sol st =
     (let st1 = st\<lparr>current_solution := Some sol,
                   solution_params :=
                     \<lparr>param_t0 = req_t0 rq, param_tf = req_tf rq, param_equation = req_text rq\<rparr>\<rparr>;
          st2 = show_success (success_message L (req_tf rq) (y_last L sol)) st1
      in st2\<lparr>boton_grafica_disabled := False,
             estado_grafica :=
               ''Haz clic en 'Ver gr'' @ [CHR 0xC3, CHR 0xA1] @ ''fica' para visualizar''\<rparr>)\<close>

text \<open>
  Lines 342 to 362: the curve is drawn into a temporary image. An exception here reaches
  the outermost handler after the solution has been stored.
\<close>

definition render_image :: "'s pylib \<Rightarrow> request \<Rightarrow> 's \<Rightarrow> 's calc_state \<Rightarrow> 's calc_state" where
  "render_image L rq sol st =
     (case named_temporary_file L of
        Inl err \<Rightarrow> show_error (py_str err) st
      | Inr temp_path \<Rightarrow>
          let (t_vals, y_vals) = curve_samples L (req_t0 rq) (req_tf rq) sol
          in case savefig L temp_path t_vals y_vals (plot_title (req_text rq)) of
               Some err \<Rightarrow> show_error (py_str err) st
             | None \<Rightarrow> st\<lparr>grafica_src := Some temp_path, grafica_visible := True\<rparr>)"

definition resolver_ecuacion :: "'s pylib \<Rightarrow> 's calc_state \<Rightarrow> 's calc_state" where
  "resolver_ecuacion L st =
     (case solve_request L st of
        Inl f \<Rightarrow> show_error (failure_message f) st
      | Inr (rq, sol) \<Rightarrow> render_image L rq sol (store_solution L rq sol st))"

section \<open>An instance of the libraries\<close>

text \<open>
  To run the handlers on concrete inputs, the library functions are instantiated:
  \<^verbatim>\<open>float\<close> follows Python's grammar of float texts on ASCII input and rounds the
  decimal value to a double, the solver is a
  stand-in that knows the single equation \<^verbatim>\<open>0\<close> (whose solution is the constant
  \<open>y0\<close>), and plotting and files succeed. The general theorems do not depend on it.
\<close>

definition is_space :: "char \<Rightarrow> bool" where
  "is_space c = (c \<in> set [CHR '' '', CHR 0x09, CHR 0x0A, CHR 0x0B, CHR 0x0C, CHR 0x0D])"

definition strip :: "string \<Rightarrow> string" where
  "strip s = rev (dropWhile is_space (rev (dropWhile is_space s)))"

definition lower :: "char \<Rightarrow> char" where
  "lower c =
     (let n = (of_char c :: nat) in if 65 \<le> n \<and> n \<le> 90 then char_of (n + 32) else c)"

text \<open>\<^verbatim>\<open>digitpart ::= digit (["_"] digit)*\<close>\<close>

fun valid_digitpart :: "string \<Rightarrow> bool" where
  "valid_digitpart [] = False"
| "valid_digitpart [c] = is_digit c"
| "valid_digitpart (c # d # cs) =
     (is_digit c \<and> (if d = CHR ''_'' then valid_digitpart cs else valid_digitpart (d # cs)))"

definition digits_value :: "string \<Rightarrow> nat" where
  "digits_value s = foldl (\<lambda>a c. 10 * a + (of_char c - 48)) 0 (filter is_digit s)"

definition digits_count :: "string \<Rightarrow> nat" where
  "digits_count s = length (filter is_digit s)"

text \<open>\<^verbatim>\<open>number ::= [digitpart] "." digitpart | digitpart ["."]\<close>\<close>

definition parse_mantissa :: "string \<Rightarrow> real option" where
  "parse_mantissa s =
     (let ip = takeWhile (\<lambda>c. c \<noteq> CHR ''.'') s;
          r = dropWhile (\<lambda>c. c \<noteq> CHR ''.'') s
      in if r = [] then (if valid_digitpart ip then Some (real (digits_value ip)) else None)
         else let fp = tl r
              in if fp = [] then (if valid_digitpart ip then Some (real (digits_value ip)) else None)
                 else if valid_digitpart fp \<and> (ip = [] \<or> valid_digitpart ip)
                 then Some (real (digits_value ip) + real (digits_value fp) / 10 ^ digits_count fp)
                 else None)"

text \<open>\<^verbatim>\<open>exponent ::= ("e" | "E") [sign] digitpart\<close>, after the letter.\<close>

definition parse_exponent :: "string \<Rightarrow> int option" where
  "parse_exponent s =
     (case s of
        [] \<Rightarrow> None
      | c # cs \<Rightarrow>
          if c = CHR ''-'' then (if valid_digitpart cs then Some (- int (digits_value cs)) else None)
          else if c = CHR ''+'' then (if valid_digitpart cs then Some (int (digits_value cs)) else None)
          else if valid_digitpart s then Some (int (digits_value s)) else None)"

definition is_e :: "char \<Rightarrow> bool" where
  "is_e c = (c = CHR ''e'' \<or> c = CHR ''E'')"

definition scale10 :: "real \<Rightarrow> int \<Rightarrow> real" where
  "scale10 m e = (if 0 \<le> e then m * 10 ^ nat e else m / 10 ^ nat (- e))"

definition parse_absfloat :: "string \<Rightarrow> pyfloat option" where
  "parse_absfloat s =
     (if map lower s = ''inf'' \<or> map lower s = ''infinity'' then Some PosInf
      else if map lower s = ''nan'' then Some NaN
      else let m = takeWhile (\<lambda>c. \<not> is_e c) s;
               r = dropWhile (\<lambda>c. \<not> is_e c) s
           in case parse_mantissa m of
                None \<Rightarrow> None
              | Some v \<Rightarrow>
                  if r = [] then Some (round_double v)
                  else (case parse_exponent (tl r) of
                          None \<Rightarrow> None
                        | Some e \<Rightarrow> Some (round_double (scale10 v e))))"

definition float_of_text :: "string \<Rightarrow> pyfloat option" where
  "float_of_text s =
     (case strip s of
        [] \<Rightarrow> None
      | c # cs \<Rightarrow>
          if c = CHR ''-'' then map_option float_neg (parse_absfloat cs)
          else if c = CHR ''+'' then parse_absfloat cs
          else parse_absfloat (c # cs))"

text \<open>The solution object of the stand-in solver: the constant it returns everywhere.\<close>

datatype constant_solution = ConstantSolution pyfloat

fun constant_value :: "constant_solution \<Rightarrow> pyfloat" where
  "constant_value (ConstantSolution c) = c"

definition no_error :: "pyexc option" where
  "no_error = None"

definition lib0 :: "constant_solution pylib" where
  "lib0 =
     \<lparr>py_float = float_of_text,
      solve_ivp = (\<lambda>fn t0 tf y0.
        if fn = Lambda (Constant ''0'') then Inr (ConstantSolution y0)
        else Inl (PyExc OtherError ''unsupported equation'')),
      success = (\<lambda>sol. True),
      y_last = constant_value,
      dense = (\<lambda>sol t. constant_value sol),
      float_str = (\<lambda>x. ''x''),
      float_6f = (\<lambda>x. ''x''),
      round_3 = (\<lambda>x. x),
      named_temporary_file = Inr ''/tmp/tmp0.png'',
      savefig = (\<lambda>path ts ys title. None),
      gettempdir = ''/tmp'',
      path_join = (\<lambda>a b. a @ ''/'' @ b),
      makedirs = (\<lambda>path. None),
      now_strftime = ''20250101_000000'',
      plot_figure = (\<lambda>ts ys title. None),
      write_file = (\<lambda>path text. None),
      webbrowser_open = (\<lambda>url. None)\<rparr>"

text \<open>Operations on integers that never raise, with no built-in names.\<close>

definition int_ops :: "int pyops" where
  "int_ops =
     \<lparr>op_constant = (\<lambda>c. 0), op_ellipsis = 0, op_empty_tuple = 0,
      op_unary = (\<lambda>op v. Inr (- v)),
      op_binary = (\<lambda>op a b. Inr (a + b)),
      op_getattr = (\<lambda>v n. Inr v),
      op_call = (\<lambda>f xs. Inr f),
      op_call_star = (\<lambda>f x. Inr f),
      op_call_double_star = (\<lambda>f x. Inr f),
      np_sin = 1, np_cos = 2, np_exp = 3, np_log = 4,
      builtins = (\<lambda>n. None),
      of_float = (\<lambda>x. 0), of_array = (\<lambda>xs. 0)\<rparr>"

text \<open>
  A second stand-in solver, which calls the function once at the initial point, with
  these operations, before it returns the constant \<open>y0\<close>.
\<close>

definition lib1 :: "constant_solution pylib" where
  "lib1 =
     lib0\<lparr>solve_ivp := (\<lambda>fn t0 tf y0.
        case first_call int_ops fn t0 y0 of
          Inl err \<Rightarrow> Inl err
        | Inr v \<Rightarrow> Inr (ConstantSolution y0))\<rparr>"

text \<open>A state in which the four fields hold the given texts.\<close>

definition with_inputs :: "string \<Rightarrow> string \<Rightarrow> string \<Rightarrow> string \<Rightarrow> 's calc_state" where
  "with_inputs e a b c =
     estado_inicial\<lparr>ecuacion_input := Some e, t0_input := Some a,
                    y0_input := Some b, tf_input := Some c\<rparr>"

section \<open>The parsers never return more tokens than they were given\<close>

lemma parse_rest_le:
  "parse_sum ts = Some (x, r) \<Longrightarrow> length r \<le> length ts"
  "parse_sum_rest e ts = Some (x, r) \<Longrightarrow> length r \<le> length ts"
  "parse_term ts = Some (x, r) \<Longrightarrow> length r \<le> length ts"
  "parse_term_rest e ts = Some (x, r) \<Longrightarrow> length r \<le> length ts"
  "parse_factor ts = Some (x, r) \<Longrightarrow> length r \<le> length ts"
  "parse_power ts = Some (x, r) \<Longrightarrow> length r \<le> length ts"
  "parse_atom ts = Some (x, r) \<Longrightarrow> length r \<le> length ts"
  "parse_trailers e ts = Some (x, r) \<Longrightarrow> length r \<le> length ts"
  "parse_closing mk ts = Some (x, r) \<Longrightarrow> length r \<le> length ts"
proof (induction ts and e ts and ts and e ts and ts and ts and ts and e ts and mk ts
       arbitrary: x r and x r and x r and x r and x r and x r and x r and x r and x r
       rule: parse_sum_parse_sum_rest_parse_term_parse_term_rest_parse_factor_parse_power_parse_atom_parse_trailers_parse_closing.induct)
  case (1 ts)
  from "1.prems" obtain e r1 where a: "parse_term ts = Some (e, r1)"
      and b: "length r1 \<le> length ts" and c: "parse_sum_rest e r1 = Some (x, r)"
    by (subst (asm) parse_sum.simps) (auto split: option.splits if_splits)
  from "1.IH"(2) [OF a refl b c] b show ?case by simp
next
  case (2 e ts)
  show ?case
  proof (cases ts)
    case Nil
    with "2.prems" show ?thesis by (subst (asm) parse_sum_rest.simps) simp
  next
    case (Cons t ts')
    show ?thesis
    proof (cases "addop t")
      case None
      with "2.prems" Cons show ?thesis by (subst (asm) parse_sum_rest.simps) simp
    next
      case (Some op)
      from "2.prems" Cons Some obtain e' r1 where a: "parse_term ts' = Some (e', r1)"
          and b: "length r1 \<le> length ts'"
          and c: "parse_sum_rest (BinOp e op e') r1 = Some (x, r)"
        by (subst (asm) parse_sum_rest.simps) (auto split: option.splits if_splits)
      from "2.IH"(2) [OF Cons Some a refl b c] b Cons show ?thesis by simp
    qed
  qed
next
  case (3 ts)
  from "3.prems" obtain e r1 where a: "parse_factor ts = Some (e, r1)"
      and b: "length r1 \<le> length ts" and c: "parse_term_rest e r1 = Some (x, r)"
    by (subst (asm) parse_term.simps) (auto split: option.splits if_splits)
  from "3.IH"(2) [OF a refl b c] b show ?case by simp
next
  case (4 e ts)
  show ?case
  proof (cases ts)
    case Nil
    with "4.prems" show ?thesis by (subst (asm) parse_term_rest.simps) simp
  next
    case (Cons t ts')
    show ?thesis
    proof (cases "mulop t")
      case None
      with "4.prems" Cons show ?thesis by (subst (asm) parse_term_rest.simps) simp
    next
      case (Some op)
      from "4.prems" Cons Some obtain e' r1 where a: "parse_factor ts' = Some (e', r1)"
          and b: "length r1 \<le> length ts'"
          and c: "parse_term_rest (BinOp e op e') r1 = Some (x, r)"
        by (subst (asm) parse_term_rest.simps) (auto split: option.splits if_splits)
      from "4.IH"(2) [OF Cons Some a refl b c] b Cons show ?thesis by simp
    qed
  qed
next
  case (5 ts)
  show ?case
  proof (cases ts)
    case Nil
    with "5.prems" show ?thesis by (subst (asm) parse_factor.simps) simp
  next
    case (Cons t ts')
    show ?thesis
    proof (cases "signop t")
      case None
      with "5.prems" Cons have "parse_power ts = Some (x, r)"
        by (subst (asm) parse_factor.simps) simp
      from "5.IH"(1) [OF Cons None this] show ?thesis .
    next
      case (Some op)
      from "5.prems" Cons Some obtain e' where a: "parse_factor ts' = Some (e', r)"
        by (subst (asm) parse_factor.simps) (auto split: option.splits)
      from "5.IH"(2) [OF Cons Some a] Cons show ?thesis by simp
    qed
  qed
next
  case (6 ts)
  from "6.prems" obtain e r1 where a: "parse_atom ts = Some (e, r1)"
    by (subst (asm) parse_power.simps) (auto split: option.splits)
  have le: "length r1 \<le> length ts" by (rule "6.IH"(1) [OF a])
  show ?case
  proof (cases "\<exists>r'. r1 = DOUBLESTAR # r'")
    case True
    then obtain r' where r1: "r1 = DOUBLESTAR # r'" by blast
    with le have g: "length r' < length ts" by simp
    from "6.prems" a r1 g obtain e' where pf: "parse_factor r' = Some (e', r)"
      by (subst (asm) parse_power.simps) (auto split: option.splits)
    from "6.IH"(2) [OF a refl r1 refl g pf] g show ?thesis by simp
  next
    case False
    with "6.prems" a have "r = r1"
      by (subst (asm) parse_power.simps) (auto split: list.splits if_splits)
    with le show ?thesis by simp
  qed
next
  case (7 ts)
  show ?case
  proof (cases ts)
    case Nil
    with "7.prems" show ?thesis by (subst (asm) parse_atom.simps) simp
  next
    case (Cons t ts')
    show ?thesis
    proof (cases "atom_of t")
      case (Some a)
      with "7.prems" Cons have "parse_trailers a ts' = Some (x, r)"
        by (subst (asm) parse_atom.simps) simp
      from "7.IH"(3) [OF Cons Some this] Cons show ?thesis by simp
    next
      case None
      with "7.prems" Cons have t: "t = LPAR"
        by (subst (asm) parse_atom.simps) (simp split: if_splits)
      show ?thesis
      proof (cases ts')
        case Nil
        with "7.prems" Cons None t show ?thesis by (subst (asm) parse_atom.simps) simp
      next
        case (Cons t' ts'')
        note c' = this
        show ?thesis
        proof (cases "t' = RPAR")
          case True
          with "7.prems" \<open>ts = t # ts'\<close> None t c'
          have "parse_trailers EmptyTuple ts'' = Some (x, r)"
            by (subst (asm) parse_atom.simps) simp
          from "7.IH"(1) [OF \<open>ts = t # ts'\<close> None t c' True this] \<open>ts = t # ts'\<close> c'
          show ?thesis by simp
        next
          case False
          with "7.prems" \<open>ts = t # ts'\<close> None t c'
          have "parse_closing (\<lambda>e. e) ts' = Some (x, r)"
            by (subst (asm) parse_atom.simps) simp
          from "7.IH"(2) [OF \<open>ts = t # ts'\<close> None t c' False this] \<open>ts = t # ts'\<close>
          show ?thesis by simp
        qed
      qed
    qed
  qed
next
  case (8 e ts)
  show ?case
  proof (cases ts)
    case Nil
    with "8.prems" show ?thesis by (subst (asm) parse_trailers.simps) simp
  next
    case (Cons t ts')
    note c = this
    show ?thesis
    proof (cases "t = DOT")
      case True
      note dot = this
      show ?thesis
      proof (cases ts')
        case Nil
        with "8.prems" c dot show ?thesis by (subst (asm) parse_trailers.simps) simp
      next
        case (Cons t' ts'')
        note c' = this
        from "8.prems" c dot c' obtain n where n: "name_of t' = Some n"
            and p: "parse_trailers (Attribute e n) ts'' = Some (x, r)"
          by (subst (asm) parse_trailers.simps) (auto split: option.splits)
        from "8.IH"(1) [OF c dot c' n p] c c' show ?thesis by simp
      qed
    next
      case False
      note nodot = this
      show ?thesis
      proof (cases "t = LPAR")
        case False
        with "8.prems" c nodot have "r = ts"
          by (subst (asm) parse_trailers.simps) simp
        then show ?thesis by simp
      next
        case True
        note lpar = this
        show ?thesis
        proof (cases ts')
          case Nil
          with "8.prems" c nodot lpar show ?thesis
            by (subst (asm) parse_trailers.simps) simp
        next
          case (Cons t' ts'')
          note c' = this
          consider (rpar) "t' = RPAR" | (star) "t' \<noteq> RPAR" "t' = STAR"
            | (dstar) "t' \<noteq> RPAR" "t' \<noteq> STAR" "t' = DOUBLESTAR"
            | (plain) "t' \<noteq> RPAR" "t' \<noteq> STAR" "t' \<noteq> DOUBLESTAR"
            by blast
          then show ?thesis
          proof cases
            case rpar
            with "8.prems" c nodot lpar c'
            have "parse_trailers (Call0 e) ts'' = Some (x, r)"
              by (subst (asm) parse_trailers.simps) simp
            from "8.IH"(2) [OF c nodot lpar c' rpar this] c c' show ?thesis by simp
          next
            case star
            with "8.prems" c nodot lpar c'
            have "parse_closing (CallStar e) ts'' = Some (x, r)"
              by (subst (asm) parse_trailers.simps) simp
            from "8.IH"(3) [OF c nodot lpar c' star this] c c' show ?thesis by simp
          next
            case dstar
            with "8.prems" c nodot lpar c'
            have "parse_closing (CallDoubleStar e) ts'' = Some (x, r)"
              by (subst (asm) parse_trailers.simps) simp
            from "8.IH"(4) [OF c nodot lpar c' dstar this] c c' show ?thesis by simp
          next
            case plain
            with "8.prems" c nodot lpar c'
            have "parse_closing (Call1 e) ts' = Some (x, r)"
              by (subst (asm) parse_trailers.simps) simp
            from "8.IH"(5) [OF c nodot lpar c' plain this] c show ?thesis by simp
          qed
        qed
      qed
    qed
  qed
next
  case (9 mk ts)
  from "9.prems" obtain e r' where a: "parse_sum ts = Some (e, RPAR # r')"
      and g: "length r' < length ts" and p: "parse_trailers (mk e) r' = Some (x, r)"
    by (subst (asm) parse_closing.simps) (auto split: option.splits list.splits if_splits)
  from "9.IH"(2) [OF a refl refl conjI [OF refl g] p] g show ?case by simp
qed

section \<open>Evaluating the model on concrete inputs\<close>

lemma round_half_even_of_int [simp]: "round_half_even (of_int n) = n"
  by (simp add: round_half_even_def)

lemma round_half_even_numeral [simp]: "round_half_even (numeral k) = numeral k"
  using round_half_even_of_int [of "numeral k"] by simp

lemma round_half_even_0 [simp]: "round_half_even 0 = 0"
  using round_half_even_of_int [of 0] by simp

lemma round_half_even_1 [simp]: "round_half_even 1 = 1"
  using round_half_even_of_int [of 1] by simp

lemmas eval_defs =
  validate_inputs_def compile_equation_def convert_values_def py_eval_lambda_def
  tokenize_def start_step_def emit_then_def dot1_step_def is_digit_def is_letter_def
  valid_int_def addop_def mulop_def signop_def parse_expression_def with_inputs_def
  estado_inicial_def lib0_def float_of_text_def strip_def is_space_def parse_absfloat_def
  parse_mantissa_def parse_exponent_def is_e_def lower_def scale10_def round_double_def
  binade_def binade_up.simps binade_down.simps pow2_def Let_def
  digits_value_def digits_count_def
  parse_sum.simps parse_sum_rest.simps parse_term.simps parse_term_rest.simps parse_factor.simps
  parse_power.simps parse_atom.simps parse_trailers.simps parse_closing.simps

section \<open>Compiling the equation\<close>

lemma py_eval_lambda_cases:
  "py_eval_lambda src = Inl (PyExc SyntaxError ''invalid syntax'')
   \<or> (\<exists>body. py_eval_lambda src = Inr (Lambda body))"
  by (simp add: py_eval_lambda_def split: option.splits)

lemma compile_equation_cases:
  "compile_equation text = Inl SyntaxErr \<or> (\<exists>body. compile_equation text = Inr (Lambda body))"
  using py_eval_lambda_cases [of "replace_caret text"]
  by (auto simp: compile_equation_def)

section \<open>Failures leave the stored solution alone\<close>

lemma resolver_failure:
  "solve_request L st = Inl f \<Longrightarrow> resolver_ecuacion L st = show_error (failure_message f) st"
  by (simp add: resolver_ecuacion_def)

lemma crear_show_error:
  "crear_grafica_externa L (show_error m st) = crear_grafica_externa L st"
  by (simp add: crear_grafica_externa_def show_error_def)

lemma show_error_keeps:
  "current_solution (show_error m st) = current_solution st"
  "solution_params (show_error m st) = solution_params st"
  by (simp_all add: show_error_def)

text \<open>
  C2. When \<^verbatim>\<open>resolver_ecuacion\<close> fails before a solution is stored (a missing field, an
  equation that does not compile, a value that is not a number, an invalid range, a solver
  that raises or reports no success), it only shows the error: the stored solution and its
  parameters are unchanged, and the export gives what it gave before.
\<close>

theorem failed_solve_keeps_state:
  assumes "solve_request L st = Inl f"
  shows "resolver_ecuacion L st = show_error (failure_message f) st
       \<and> current_solution (resolver_ecuacion L st) = current_solution st
       \<and> solution_params (resolver_ecuacion L st) = solution_params st
       \<and> crear_grafica_externa L (resolver_ecuacion L st) = crear_grafica_externa L st"
  using assms by (simp add: resolver_failure crear_show_error show_error_keeps)

theorem failed_solve_keeps_state_witness:
  "solve_request lib0
     ((with_inputs ''y'' ''0'' ''1'' ''abc'')\<lparr>current_solution := Some (ConstantSolution (Finite 1))\<rparr>)
     = Inl NotANumber
   \<and> current_solution
       (resolver_ecuacion lib0
          ((with_inputs ''y'' ''0'' ''1'' ''abc'')\<lparr>current_solution := Some (ConstantSolution (Finite 1))\<rparr>))
     = Some (ConstantSolution (Finite 1))"
proof -
  let ?st = "(with_inputs ''y'' ''0'' ''1'' ''abc'')\<lparr>current_solution := Some (ConstantSolution (Finite 1))\<rparr>"
  have h: "solve_request lib0 ?st = Inl NotANumber"
    by (simp add: solve_request_def eval_defs)
  from failed_solve_keeps_state [OF h] have "current_solution (resolver_ecuacion lib0 ?st) = current_solution ?st"
    by blast
  with h show ?thesis by simp
qed

section \<open>The range check\<close>

lemma py_float_solver_irrelevant:
  "py_float (L\<lparr>solve_ivp := s\<rparr>) = py_float L"
  by simp

lemma convert_solver_irrelevant:
  "convert_values (L\<lparr>solve_ivp := s\<rparr>) st = convert_values L st"
  unfolding convert_values_def py_float_solver_irrelevant by (rule refl)

lemma validate_solver_irrelevant:
  "validate_inputs (L\<lparr>solve_ivp := s\<rparr>) st = validate_inputs L st"
  unfolding validate_inputs_def convert_solver_irrelevant by (rule refl)

text \<open>
  C3. When the fields are filled, the equation compiles and the three values are numbers
  with \<open>tf \<le> t0\<close>, the handler fails with the range error whatever the solver would do
  (the solver is not consulted), and the stored solution and parameters are unchanged.
\<close>

theorem invalid_range_rejected:
  assumes "truthy (ecuacion_input st)" and "truthy (t0_input st)"
      and "truthy (y0_input st)" and "truthy (tf_input st)"
      and "compile_equation (field_text (ecuacion_input st)) = Inr fn"
      and "convert_values L st = Some (t0, y0, tf)"
      and "float_le tf t0"
  shows "solve_request (L\<lparr>solve_ivp := s\<rparr>) st = Inl InvalidRange
       \<and> resolver_ecuacion (L\<lparr>solve_ivp := s\<rparr>) st = show_error (failure_message InvalidRange) st
       \<and> current_solution (resolver_ecuacion (L\<lparr>solve_ivp := s\<rparr>) st) = current_solution st
       \<and> solution_params (resolver_ecuacion (L\<lparr>solve_ivp := s\<rparr>) st) = solution_params st"
proof -
  have v: "validate_inputs L st = Inl InvalidRange"
    using assms by (simp add: validate_inputs_def)
  hence r: "solve_request (L\<lparr>solve_ivp := s\<rparr>) st = Inl InvalidRange"
    by (simp add: solve_request_def validate_solver_irrelevant)
  show ?thesis
    using r by (simp add: resolver_failure show_error_keeps)
qed

theorem invalid_range_rejected_witness:
  "truthy (ecuacion_input (with_inputs ''y'' ''2'' ''1'' ''2'' :: constant_solution calc_state))
   \<and> compile_equation ''y'' = Inr (Lambda (Name ''y''))
   \<and> convert_values lib0 (with_inputs ''y'' ''2'' ''1'' ''2'') = Some (Finite 2, Finite 1, Finite 2)
   \<and> float_le (Finite 2) (Finite 2)
   \<and> solve_request (lib0\<lparr>solve_ivp := (\<lambda>fn t0 tf y0. Inr (ConstantSolution y0))\<rparr>)
        (with_inputs ''y'' ''2'' ''1'' ''2'') = Inl InvalidRange"
proof -
  let ?st = "with_inputs ''y'' ''2'' ''1'' ''2'' :: constant_solution calc_state"
  have a: "truthy (ecuacion_input ?st)" "truthy (t0_input ?st)" "truthy (y0_input ?st)"
          "truthy (tf_input ?st)"
    by (simp_all add: with_inputs_def)
  have b: "compile_equation (field_text (ecuacion_input ?st)) = Inr (Lambda (Name ''y''))"
    by (simp add: eval_defs)
  have c: "convert_values lib0 ?st = Some (Finite 2, Finite 1, Finite 2)"
    by (simp add: eval_defs)
  have d: "float_le (Finite 2) (Finite 2)" by simp
  from invalid_range_rejected [OF a b c d]
  have "solve_request (lib0\<lparr>solve_ivp := (\<lambda>fn t0 tf y0. Inr (ConstantSolution y0))\<rparr>) ?st
          = Inl InvalidRange"
    by blast
  with a b c d show ?thesis by (simp add: with_inputs_def)
qed

section \<open>Values that are not finite\<close>

text \<open>
  C5, as the code has it. The handler has no check of finiteness. When the fields are
  filled, the equation compiles and the three values are numbers of which one is an
  infinity or a NaN, the request fails before the integration only if \<open>tf \<le> t0\<close> holds,
  and then with the range error; otherwise it is handed to the solver as it is.
\<close>

theorem non_finite_values_not_rejected:
  assumes "truthy (ecuacion_input st)" and "truthy (t0_input st)"
      and "truthy (y0_input st)" and "truthy (tf_input st)"
      and "compile_equation (field_text (ecuacion_input st)) = Inr fn"
      and "convert_values L st = Some (t0, y0, tf)"
      and "\<not> isfinite t0 \<or> \<not> isfinite y0 \<or> \<not> isfinite tf"
  shows "validate_inputs L st =
           (if float_le tf t0 then Inl InvalidRange
            else Inr \<lparr>req_fn = fn, req_t0 = t0, req_y0 = y0, req_tf = tf,
                      req_text = field_text (ecuacion_input st)\<rparr>)"
  using assms by (simp add: validate_inputs_def)

theorem non_finite_values_not_rejected_witness:
  "convert_values lib0 (with_inputs ''y'' ''0'' ''nan'' ''1'') = Some (Finite 0, NaN, Finite 1)
   \<and> \<not> isfinite NaN
   \<and> validate_inputs lib0 (with_inputs ''y'' ''0'' ''nan'' ''1'')
       = Inr \<lparr>req_fn = Lambda (Name ''y''), req_t0 = Finite 0, req_y0 = NaN, req_tf = Finite 1,
               req_text = ''y''\<rparr>"
proof -
  let ?st = "with_inputs ''y'' ''0'' ''nan'' ''1'' :: constant_solution calc_state"
  have a: "truthy (ecuacion_input ?st)" "truthy (t0_input ?st)" "truthy (y0_input ?st)"
          "truthy (tf_input ?st)"
    by (simp_all add: with_inputs_def)
  have b: "compile_equation (field_text (ecuacion_input ?st)) = Inr (Lambda (Name ''y''))"
    by (simp add: eval_defs)
  have c: "convert_values lib0 ?st = Some (Finite 0, NaN, Finite 1)"
    by (simp add: eval_defs)
  have d: "\<not> isfinite (Finite 0) \<or> \<not> isfinite NaN \<or> \<not> isfinite (Finite 1)" by simp
  from non_finite_values_not_rejected [OF a b c d] c show ?thesis
    by (simp add: with_inputs_def)
qed

text \<open>
  The claim as stated fails for the final time \<^verbatim>\<open>inf\<close>: the inputs pass every check and
  the request goes to the solver with an infinite \<open>tf\<close>.
\<close>

theorem infinite_tf_reaches_solver:
  "validate_inputs lib0 (with_inputs ''y'' ''0'' ''1'' ''inf'')
     = Inr \<lparr>req_fn = Lambda (Name ''y''), req_t0 = Finite 0, req_y0 = Finite 1, req_tf = PosInf,
             req_text = ''y''\<rparr>"
  by (simp add: eval_defs)

section \<open>The order of the checks\<close>

text \<open>
  C6, as the code has it. An empty field gives the missing-field error. A value that is
  not a number gives the not-a-number error when all four fields are filled and the
  equation compiles: the equation is compiled before the values are converted, so its
  syntax error comes first. Only when the fields are filled, the equation compiles and the
  three values are numbers does the handler reach the range check.
\<close>

theorem field_checks_in_order:
  "(\<not> truthy (ecuacion_input st) \<or> \<not> truthy (t0_input st)
      \<or> \<not> truthy (y0_input st) \<or> \<not> truthy (tf_input st)
     \<longrightarrow> validate_inputs L st = Inl MissingField)
   \<and> (truthy (ecuacion_input st) \<and> truthy (t0_input st)
      \<and> truthy (y0_input st) \<and> truthy (tf_input st)
      \<and> compile_equation (field_text (ecuacion_input st)) = Inr fn
      \<and> (py_float L (field_text (t0_input st)) = None
         \<or> py_float L (field_text (y0_input st)) = None
         \<or> py_float L (field_text (tf_input st)) = None)
     \<longrightarrow> validate_inputs L st = Inl NotANumber)
   \<and> (validate_inputs L st = Inl InvalidRange \<or> validate_inputs L st = Inr rq
     \<longrightarrow> truthy (ecuacion_input st) \<and> truthy (t0_input st)
        \<and> truthy (y0_input st) \<and> truthy (tf_input st)
        \<and> (\<exists>fn. compile_equation (field_text (ecuacion_input st)) = Inr fn)
        \<and> py_float L (field_text (t0_input st)) \<noteq> None
        \<and> py_float L (field_text (y0_input st)) \<noteq> None
        \<and> py_float L (field_text (tf_input st)) \<noteq> None)"
proof (intro conjI impI)
  assume "\<not> truthy (ecuacion_input st) \<or> \<not> truthy (t0_input st)
      \<or> \<not> truthy (y0_input st) \<or> \<not> truthy (tf_input st)"
  then show "validate_inputs L st = Inl MissingField"
    by (auto simp: validate_inputs_def)
next
  assume "truthy (ecuacion_input st) \<and> truthy (t0_input st)
      \<and> truthy (y0_input st) \<and> truthy (tf_input st)
      \<and> compile_equation (field_text (ecuacion_input st)) = Inr fn
      \<and> (py_float L (field_text (t0_input st)) = None
         \<or> py_float L (field_text (y0_input st)) = None
         \<or> py_float L (field_text (tf_input st)) = None)"
  then show "validate_inputs L st = Inl NotANumber"
    by (auto simp: validate_inputs_def convert_values_def split: option.splits)
next
  assume h: "validate_inputs L st = Inl InvalidRange \<or> validate_inputs L st = Inr rq"
  then show "truthy (ecuacion_input st)" "truthy (t0_input st)"
       "truthy (y0_input st)" "truthy (tf_input st)"
    by (auto simp: validate_inputs_def split: if_splits)
  from h show "\<exists>fn. compile_equation (field_text (ecuacion_input st)) = Inr fn"
    using compile_equation_cases [of "field_text (ecuacion_input st)"]
    by (auto simp: validate_inputs_def split: if_splits)
  from h show "py_float L (field_text (t0_input st)) \<noteq> None"
       "py_float L (field_text (y0_input st)) \<noteq> None"
       "py_float L (field_text (tf_input st)) \<noteq> None"
    using compile_equation_cases [of "field_text (ecuacion_input st)"]
    by (auto simp: validate_inputs_def convert_values_def split: if_splits option.splits)
qed

theorem field_checks_in_order_witness:
  "\<not> truthy (tf_input (with_inputs ''y'' ''0'' ''1'' '''' :: constant_solution calc_state))
   \<and> validate_inputs lib0 (with_inputs ''y'' ''0'' ''1'' '''') = Inl MissingField
   \<and> compile_equation ''y'' = Inr (Lambda (Name ''y''))
   \<and> py_float lib0 ''abc'' = None
   \<and> validate_inputs lib0 (with_inputs ''y'' ''abc'' ''1'' ''2'') = Inl NotANumber
   \<and> validate_inputs lib0 (with_inputs ''y'' ''2'' ''1'' ''1'') = Inl InvalidRange
   \<and> py_float lib0 ''2'' \<noteq> None"
proof -
  let ?m = "with_inputs ''y'' ''0'' ''1'' '''' :: constant_solution calc_state"
  let ?n = "with_inputs ''y'' ''abc'' ''1'' ''2'' :: constant_solution calc_state"
  let ?r = "with_inputs ''y'' ''2'' ''1'' ''1'' :: constant_solution calc_state"
  have m: "\<not> truthy (tf_input ?m)" by (simp add: with_inputs_def)
  have c: "compile_equation ''y'' = Inr (Lambda (Name ''y''))" by (simp add: eval_defs)
  have f: "py_float lib0 ''abc'' = None" by (simp add: eval_defs)
  have r: "validate_inputs lib0 ?r = Inl InvalidRange" by (simp add: eval_defs)
  have 1: "validate_inputs lib0 ?m = Inl MissingField"
    using field_checks_in_order [where st = ?m and L = lib0] m by blast
  have 2: "validate_inputs lib0 ?n = Inl NotANumber"
    using field_checks_in_order [where st = ?n and L = lib0 and fn = "Lambda (Name ''y'')"] c f
    by (simp add: with_inputs_def)
  have 3: "py_float lib0 ''2'' \<noteq> None"
    using field_checks_in_order [where st = ?r and L = lib0] r by (simp add: with_inputs_def)
  from m 1 c f 2 r 3 show ?thesis by blast
qed

text \<open>
  The claim as stated fails when the equation has a syntax error: with \<^verbatim>\<open>abc\<close> for
  \<open>t0\<close>, which is not a number, the error is the syntax error.
\<close>

theorem syntax_error_before_not_a_number:
  "py_float lib0 ''abc'' = None
   \<and> validate_inputs lib0 (with_inputs ''+'' ''abc'' ''1'' ''2'') = Inl SyntaxErr"
  by (simp add: eval_defs)

section \<open>Names outside the whitelist\<close>

lemma button_word_ty: "button_word ''ty''"
proof -
  have "button_word ([] @ ''t'')"
    by (rule button_word.press [OF button_word.empty]) (simp add: botones_def)
  then have "button_word (([] @ ''t'') @ ''y'')"
    by (rule button_word.press) (simp add: botones_def)
  then show ?thesis by simp
qed

lemma invoke_unresolved_name:
  "lookup_name P t y n = None \<Longrightarrow> invoke P (Lambda (Name n)) t y = Inl (name_error n)"
  by simp

lemma find_append:
  "List.find Q (xs @ ys) = (case List.find Q xs of None \<Rightarrow> List.find Q ys | Some x \<Rightarrow> Some x)"
  by (induction xs) auto

lemma eval_expr_total:
  assumes "total_ops P"
  shows "case List.find (\<lambda>n. lookup_name P t y n = None) (names e) of
           Some n \<Rightarrow> eval_expr P t y e = Inl (name_error n)
         | None \<Rightarrow> (\<exists>v. eval_expr P t y e = Inr v)"
proof (induction e)
  case (UnaryOp op e)
  from assms have "\<And>v. \<exists>r. op_unary P op v = Inr r"
    unfolding total_ops_def by blast
  with UnaryOp show ?case
    by (auto simp: and_then_def split: option.splits)
next
  case (BinOp a op b)
  from assms have "\<And>v w. \<exists>r. op_binary P op v w = Inr r"
    unfolding total_ops_def by blast
  with BinOp show ?case
    by (auto simp: and_then_def find_append split: option.splits)
next
  case (Attribute e n)
  from assms have "\<And>v. \<exists>r. op_getattr P v n = Inr r"
    unfolding total_ops_def by blast
  with Attribute show ?case
    by (auto simp: and_then_def split: option.splits)
next
  case (Call0 f)
  from assms have "\<And>v. \<exists>r. op_call P v [] = Inr r"
    unfolding total_ops_def by blast
  with Call0 show ?case
    by (auto simp: and_then_def split: option.splits)
next
  case (Call1 f a)
  from assms have "\<And>v w. \<exists>r. op_call P v [w] = Inr r"
    unfolding total_ops_def by blast
  with Call1 show ?case
    by (auto simp: and_then_def find_append split: option.splits)
next
  case (CallStar f a)
  from assms have "\<And>v w. \<exists>r. op_call_star P v w = Inr r"
    unfolding total_ops_def by blast
  with CallStar show ?case
    by (auto simp: and_then_def find_append split: option.splits)
next
  case (CallDoubleStar f a)
  from assms have "\<And>v w. \<exists>r. op_call_double_star P v w = Inr r"
    unfolding total_ops_def by blast
  with CallDoubleStar show ?case
    by (auto simp: and_then_def find_append split: option.splits)
qed (simp_all split: option.splits)

text \<open>
  C1, at the input \<^verbatim>\<open>ty\<close> (the buttons \<^verbatim>\<open>t\<close> and \<^verbatim>\<open>y\<close>), with \<open>t0 = 0\<close>,
  \<open>y0 = 1\<close> and \<open>tf = 1\<close>: the name \<^verbatim>\<open>ty\<close> is outside the whitelist, yet the text
  compiles and every check passes, so the request goes to the solver with a function
  whose body is that name.
\<close>

theorem unknown_name_passes_validation:
  "button_word ''ty'' \<and> ''ty'' \<notin> whitelist
   \<and> compile_equation ''ty'' = Inr (Lambda (Name ''ty''))
   \<and> validate_inputs lib0 (with_inputs ''ty'' ''0'' ''1'' ''1'')
       = Inr \<lparr>req_fn = Lambda (Name ''ty''), req_t0 = Finite 0, req_y0 = Finite 1,
               req_tf = Finite 1, req_text = ''ty''\<rparr>"
  by (simp add: button_word_ty whitelist_def eval_defs)

theorem unknown_name_passes_validation_witness:
  "compile_equation ''ty'' = Inr (Lambda (Name ''ty''))"
  using unknown_name_passes_validation by blast

section \<open>Names do not matter to the compiler\<close>

lemma rename_result_simps [simp]:
  "rename_result f None = None"
  "rename_result f (Some (e, r)) = Some (rename_expr f e, map (rename_token f) r)"
  by (simp_all add: rename_result_def)

lemma rename_token_ops [simp]:
  "addop (rename_token f t) = addop t"
  "mulop (rename_token f t) = mulop t"
  "signop (rename_token f t) = signop t"
  "atom_of (rename_token f t) = map_option (rename_expr f) (atom_of t)"
  "name_of (rename_token f t) = map_option f (name_of t)"
  by (cases t; simp add: addop_def mulop_def signop_def)+

lemma rename_token_eq [simp]:
  "(rename_token f t = LPAR) = (t = LPAR)"
  "(rename_token f t = RPAR) = (t = RPAR)"
  "(rename_token f t = DOT) = (t = DOT)"
  "(rename_token f t = STAR) = (t = STAR)"
  "(rename_token f t = DOUBLESTAR) = (t = DOUBLESTAR)"
  by (cases t; simp)+

lemma parse_rename:
  "parse_sum (map (rename_token f) ts) = rename_result f (parse_sum ts)"
  "parse_sum_rest (rename_expr f e) (map (rename_token f) ts) = rename_result f (parse_sum_rest e ts)"
  "parse_term (map (rename_token f) ts) = rename_result f (parse_term ts)"
  "parse_term_rest (rename_expr f e) (map (rename_token f) ts) = rename_result f (parse_term_rest e ts)"
  "parse_factor (map (rename_token f) ts) = rename_result f (parse_factor ts)"
  "parse_power (map (rename_token f) ts) = rename_result f (parse_power ts)"
  "parse_atom (map (rename_token f) ts) = rename_result f (parse_atom ts)"
  "parse_trailers (rename_expr f e) (map (rename_token f) ts) = rename_result f (parse_trailers e ts)"
  "\<forall>mk'. (\<forall>a. mk' (rename_expr f a) = rename_expr f (mk a)) \<longrightarrow>
     parse_closing mk' (map (rename_token f) ts) = rename_result f (parse_closing mk ts)"
proof (induction ts and e ts and ts and e ts and ts and ts and ts and e ts and mk ts
       rule: parse_sum_parse_sum_rest_parse_term_parse_term_rest_parse_factor_parse_power_parse_atom_parse_trailers_parse_closing.induct)
  case (1 ts)
  note a = "1.IH"(1)
  show ?case
  proof (cases "parse_term ts")
    case None
    with a show ?thesis
      unfolding parse_sum.simps [of ts] parse_sum.simps [of "map (rename_token f) ts"]
        by simp
  next
    case (Some p)
    obtain e r where "p = (e, r)" by (cases p)
    with Some have pt: "parse_term ts = Some (e, r)" by simp
    have le: "length r \<le> length ts" by (rule parse_rest_le(3) [OF pt])
    from "1.IH"(2) [OF pt refl le] a pt le show ?thesis
      unfolding parse_sum.simps [of ts] parse_sum.simps [of "map (rename_token f) ts"]
        by simp
  qed
next
  case (2 e ts)
  show ?case
  proof (cases ts)
    case Nil
    then show ?thesis
      unfolding parse_sum_rest.simps [of e ts] parse_sum_rest.simps [of "rename_expr f e" "map (rename_token f) ts"]
        by simp
  next
    case (Cons t ts')
    note c = this
    show ?thesis
    proof (cases "addop t")
      case None
      with c show ?thesis
        unfolding parse_sum_rest.simps [of e ts] parse_sum_rest.simps [of "rename_expr f e" "map (rename_token f) ts"]
        by simp
    next
      case (Some op)
      note op = this
      note a = "2.IH"(1) [OF c op]
      show ?thesis
      proof (cases "parse_term ts'")
        case None
        with a c op show ?thesis
          unfolding parse_sum_rest.simps [of e ts] parse_sum_rest.simps [of "rename_expr f e" "map (rename_token f) ts"]
        by simp
      next
        case (Some p)
        obtain e' r where "p = (e', r)" by (cases p)
        with Some have pt: "parse_term ts' = Some (e', r)" by simp
        have le: "length r \<le> length ts'" by (rule parse_rest_le(3) [OF pt])
        from "2.IH"(2) [OF c op pt refl le] a c op pt le show ?thesis
          unfolding parse_sum_rest.simps [of e ts] parse_sum_rest.simps [of "rename_expr f e" "map (rename_token f) ts"]
        by simp
      qed
    qed
  qed
next
  case (3 ts)
  note a = "3.IH"(1)
  show ?case
  proof (cases "parse_factor ts")
    case None
    with a show ?thesis
      unfolding parse_term.simps [of ts] parse_term.simps [of "map (rename_token f) ts"]
        by simp
  next
    case (Some p)
    obtain e r where "p = (e, r)" by (cases p)
    with Some have pt: "parse_factor ts = Some (e, r)" by simp
    have le: "length r \<le> length ts" by (rule parse_rest_le(5) [OF pt])
    from "3.IH"(2) [OF pt refl le] a pt le show ?thesis
      unfolding parse_term.simps [of ts] parse_term.simps [of "map (rename_token f) ts"]
        by simp
  qed
next
  case (4 e ts)
  show ?case
  proof (cases ts)
    case Nil
    then show ?thesis
      unfolding parse_term_rest.simps [of e ts] parse_term_rest.simps [of "rename_expr f e" "map (rename_token f) ts"]
        by simp
  next
    case (Cons t ts')
    note c = this
    show ?thesis
    proof (cases "mulop t")
      case None
      with c show ?thesis
        unfolding parse_term_rest.simps [of e ts] parse_term_rest.simps [of "rename_expr f e" "map (rename_token f) ts"]
        by simp
    next
      case (Some op)
      note op = this
      note a = "4.IH"(1) [OF c op]
      show ?thesis
      proof (cases "parse_factor ts'")
        case None
        with a c op show ?thesis
          unfolding parse_term_rest.simps [of e ts] parse_term_rest.simps [of "rename_expr f e" "map (rename_token f) ts"]
        by simp
      next
        case (Some p)
        obtain e' r where "p = (e', r)" by (cases p)
        with Some have pt: "parse_factor ts' = Some (e', r)" by simp
        have le: "length r \<le> length ts'" by (rule parse_rest_le(5) [OF pt])
        from "4.IH"(2) [OF c op pt refl le] a c op pt le show ?thesis
          unfolding parse_term_rest.simps [of e ts] parse_term_rest.simps [of "rename_expr f e" "map (rename_token f) ts"]
        by simp
      qed
    qed
  qed
next
  case (5 ts)
  show ?case
  proof (cases ts)
    case Nil
    then show ?thesis
      unfolding parse_factor.simps [of ts] parse_factor.simps [of "map (rename_token f) ts"]
        by simp
  next
    case (Cons t ts')
    note c = this
    show ?thesis
    proof (cases "signop t")
      case None
      from "5.IH"(1) [OF c None] c None show ?thesis
        unfolding parse_factor.simps [of ts] parse_factor.simps [of "map (rename_token f) ts"]
        by simp
    next
      case (Some op)
      from "5.IH"(2) [OF c Some] c Some show ?thesis
        unfolding parse_factor.simps [of ts] parse_factor.simps [of "map (rename_token f) ts"]
        by (cases "parse_factor ts'") auto
    qed
  qed
next
  case (6 ts)
  note a = "6.IH"(1)
  show ?case
  proof (cases "parse_atom ts")
    case None
    with a show ?thesis
      unfolding parse_power.simps [of ts] parse_power.simps [of "map (rename_token f) ts"]
        by simp
  next
    case (Some p)
    obtain e r where "p = (e, r)" by (cases p)
    with Some have pa: "parse_atom ts = Some (e, r)" by simp
    show ?thesis
    proof (cases r)
      case Nil
      with a pa show ?thesis
        unfolding parse_power.simps [of ts] parse_power.simps [of "map (rename_token f) ts"]
        by simp
    next
      case (Cons t r')
      note r = this
      show ?thesis
      proof (cases "t = DOUBLESTAR")
        case False
        with a pa r show ?thesis
          unfolding parse_power.simps [of ts] parse_power.simps [of "map (rename_token f) ts"]
        by simp
      next
        case True
        from parse_rest_le(7) [OF pa] r have g: "length r' < length ts" by simp
        from "6.IH"(2) [OF pa refl r True g] a pa r True g show ?thesis
          unfolding parse_power.simps [of ts] parse_power.simps [of "map (rename_token f) ts"]
        by (cases "parse_factor r'") auto
      qed
    qed
  qed
next
  case (7 ts)
  show ?case
  proof (cases ts)
    case Nil
    then show ?thesis
      unfolding parse_atom.simps [of ts] parse_atom.simps [of "map (rename_token f) ts"]
        by simp
  next
    case (Cons t ts')
    note c = this
    show ?thesis
    proof (cases "atom_of t")
      case (Some a)
      from "7.IH"(3) [OF c Some] c Some show ?thesis
        unfolding parse_atom.simps [of ts] parse_atom.simps [of "map (rename_token f) ts"]
        by simp
    next
      case None
      note na = this
      show ?thesis
      proof (cases "t = LPAR")
        case False
        with c na show ?thesis
          unfolding parse_atom.simps [of ts] parse_atom.simps [of "map (rename_token f) ts"]
        by simp
      next
        case True
        note lpar = this
        show ?thesis
        proof (cases ts')
          case Nil
          with c na lpar show ?thesis
            unfolding parse_atom.simps [of ts] parse_atom.simps [of "map (rename_token f) ts"]
        by simp
        next
          case (Cons t' ts'')
          note c' = this
          show ?thesis
          proof (cases "t' = RPAR")
            case True
            from "7.IH"(1) [OF c na lpar c' True] c na lpar c' True show ?thesis
              unfolding parse_atom.simps [of ts] parse_atom.simps [of "map (rename_token f) ts"]
        by simp
          next
            case False
            from "7.IH"(2) [OF c na lpar c' False]
            have "parse_closing (\<lambda>e. e) (map (rename_token f) ts')
                    = rename_result f (parse_closing (\<lambda>e. e) ts')"
              by simp
            with c na lpar c' False show ?thesis
              unfolding parse_atom.simps [of ts] parse_atom.simps [of "map (rename_token f) ts"]
        by simp
          qed
        qed
      qed
    qed
  qed
next
  case (8 e ts)
  show ?case
  proof (cases ts)
    case Nil
    then show ?thesis
      unfolding parse_trailers.simps [of e ts] parse_trailers.simps [of "rename_expr f e" "map (rename_token f) ts"]
        by simp
  next
    case (Cons t ts')
    note c = this
    show ?thesis
    proof (cases "t = DOT")
      case True
      note dot = this
      show ?thesis
      proof (cases ts')
        case Nil
        with c dot show ?thesis
          unfolding parse_trailers.simps [of e ts] parse_trailers.simps [of "rename_expr f e" "map (rename_token f) ts"]
        by simp
      next
        case (Cons t' ts'')
        note c' = this
        show ?thesis
        proof (cases "name_of t'")
          case None
          with c dot c' show ?thesis
            unfolding parse_trailers.simps [of e ts] parse_trailers.simps [of "rename_expr f e" "map (rename_token f) ts"]
        by simp
        next
          case (Some n)
          from "8.IH"(1) [OF c dot c' Some] c dot c' Some show ?thesis
            unfolding parse_trailers.simps [of e ts] parse_trailers.simps [of "rename_expr f e" "map (rename_token f) ts"]
        by simp
        qed
      qed
    next
      case False
      note nodot = this
      show ?thesis
      proof (cases "t = LPAR")
        case False
        with c nodot show ?thesis
          unfolding parse_trailers.simps [of e ts] parse_trailers.simps [of "rename_expr f e" "map (rename_token f) ts"]
        by simp
      next
        case True
        note lpar = this
        show ?thesis
        proof (cases ts')
          case Nil
          with c nodot lpar show ?thesis
            unfolding parse_trailers.simps [of e ts] parse_trailers.simps [of "rename_expr f e" "map (rename_token f) ts"]
        by simp
        next
          case (Cons t' ts'')
          note c' = this
          consider (rpar) "t' = RPAR" | (star) "t' \<noteq> RPAR" "t' = STAR"
            | (dstar) "t' \<noteq> RPAR" "t' \<noteq> STAR" "t' = DOUBLESTAR"
            | (plain) "t' \<noteq> RPAR" "t' \<noteq> STAR" "t' \<noteq> DOUBLESTAR"
            by blast
          then show ?thesis
          proof cases
            case rpar
            from "8.IH"(2) [OF c nodot lpar c' rpar] c nodot lpar c' rpar show ?thesis
              unfolding parse_trailers.simps [of e ts] parse_trailers.simps [of "rename_expr f e" "map (rename_token f) ts"]
        by simp
          next
            case star
            from "8.IH"(3) [OF c nodot lpar c' star]
            have "parse_closing (CallStar (rename_expr f e)) (map (rename_token f) ts'')
                    = rename_result f (parse_closing (CallStar e) ts'')"
              by simp
            with c nodot lpar c' star show ?thesis
              unfolding parse_trailers.simps [of e ts] parse_trailers.simps [of "rename_expr f e" "map (rename_token f) ts"]
        by simp
          next
            case dstar
            from "8.IH"(4) [OF c nodot lpar c' dstar]
            have "parse_closing (CallDoubleStar (rename_expr f e)) (map (rename_token f) ts'')
                    = rename_result f (parse_closing (CallDoubleStar e) ts'')"
              by simp
            with c nodot lpar c' dstar show ?thesis
              unfolding parse_trailers.simps [of e ts] parse_trailers.simps [of "rename_expr f e" "map (rename_token f) ts"]
        by simp
          next
            case plain
            from "8.IH"(5) [OF c nodot lpar c' plain]
            have "parse_closing (Call1 (rename_expr f e)) (map (rename_token f) ts')
                    = rename_result f (parse_closing (Call1 e) ts')"
              by simp
            with c nodot lpar c' plain show ?thesis
              unfolding parse_trailers.simps [of e ts] parse_trailers.simps [of "rename_expr f e" "map (rename_token f) ts"]
        by simp
          qed
        qed
      qed
    qed
  qed
next
  case (9 mk ts)
  note a = "9.IH"(1)
  show ?case
  proof (intro allI impI)
    fix mk' assume mk: "\<forall>a. mk' (rename_expr f a) = rename_expr f (mk a)"
    show "parse_closing mk' (map (rename_token f) ts) = rename_result f (parse_closing mk ts)"
    proof (cases "parse_sum ts")
      case None
      with a show ?thesis
        unfolding parse_closing.simps [of mk ts] parse_closing.simps [of mk' "map (rename_token f) ts"]
        by simp
    next
      case (Some p)
      obtain e r where "p = (e, r)" by (cases p)
      with Some have ps: "parse_sum ts = Some (e, r)" by simp
      show ?thesis
      proof (cases r)
        case Nil
        with a ps show ?thesis
          unfolding parse_closing.simps [of mk ts] parse_closing.simps [of mk' "map (rename_token f) ts"]
        by simp
      next
        case (Cons t r')
        note r = this
        show ?thesis
        proof (cases "t = RPAR")
          case False
          with a ps r show ?thesis
            unfolding parse_closing.simps [of mk ts] parse_closing.simps [of mk' "map (rename_token f) ts"]
        by simp
        next
          case True
          from parse_rest_le(1) [OF ps] r have g: "length r' < length ts" by simp
          from "9.IH"(2) [OF ps refl r conjI [OF True g]] mk a ps r True g show ?thesis
            unfolding parse_closing.simps [of mk ts] parse_closing.simps [of mk' "map (rename_token f) ts"]
        by simp
        qed
      qed
    qed
  qed
qed

lemma parse_expression_rename:
  "parse_expression (map (rename_token f) ts) = map_option (rename_expr f) (parse_expression ts)"
  by (simp add: parse_expression_def parse_rename(1) split: option.splits)

lemma compile_equation_rename:
  assumes "tokenize (replace_caret text) = Some ts"
      and "tokenize (replace_caret text') = Some (map (rename_token f) ts)"
  shows "(compile_equation text' = Inl SyntaxErr) = (compile_equation text = Inl SyntaxErr)"
    and "compile_equation text = Inr (Lambda body) \<Longrightarrow>
           compile_equation text' = Inr (Lambda (rename_expr f body))"
  using assms
  by (auto simp: compile_equation_def py_eval_lambda_def parse_expression_rename
           split: option.splits)

lemma button_word_t: "button_word ''t''"
  using button_word.press [OF button_word.empty, of "''t''"] by (simp add: botones_def)

lemma replace_caret_append: "replace_caret (u @ v) = replace_caret u @ replace_caret v"
  by (induction u) simp_all

lemma button_chars_known:
  "b \<in> set (concat botones) \<Longrightarrow> c \<in> set (replace_caret b) \<Longrightarrow> start_step c \<noteq> None"
  by (auto simp: botones_def start_step_def is_letter_def is_digit_def)

lemma button_word_known:
  "button_word w \<Longrightarrow> c \<in> set (replace_caret w) \<Longrightarrow> start_step c \<noteq> None"
proof (induction rule: button_word.induct)
  case empty
  then show ?case by simp
next
  case (press w b)
  then show ?case
    using button_chars_known [of b c] by (auto simp: replace_caret_append)
qed

section \<open>An unresolved name at the first call\<close>

lemma lib1_fields:
  "py_float lib1 = py_float lib0"
  "solve_ivp lib1 fn t0 tf y0 =
     (case first_call int_ops fn t0 y0 of
        Inl err \<Rightarrow> Inl err
      | Inr v \<Rightarrow> Inr (ConstantSolution y0))"
  by (simp_all add: lib1_def)

lemma solver_calls_function_lib1: "solver_calls_function lib1 int_ops"
  by (simp add: solver_calls_function_def lib1_fields)

lemma first_call_unresolved:
  assumes "body = Name n \<or> total_ops P"
      and "List.find (\<lambda>n. lookup_name P (of_float P t0) (of_array P [y0]) n = None) (names body)
             = Some n"
  shows "first_call P (Lambda body) t0 y0 = Inl (name_error n)"
proof -
  from assms(1) show ?thesis
  proof
    assume "body = Name n"
    with assms(2) show ?thesis
      by (simp add: first_call_def split: if_splits)
  next
    assume "total_ops P"
    from eval_expr_total [OF this, of "of_float P t0" "of_array P [y0]" body] assms(2)
    show ?thesis by (simp add: first_call_def)
  qed
qed

lemma first_call_shown:
  assumes "solver_calls_function L P" and "validate_inputs L st = Inr rq"
      and "isfinite (req_t0 rq)" and "isfinite (req_y0 rq)" and "isfinite (req_tf rq)"
      and "first_call P (req_fn rq) (req_t0 rq) (req_y0 rq) = Inl err"
  shows "resolver_ecuacion L st = show_error (py_str err) st"
proof -
  from assms(1,3-6) have "solve_ivp L (req_fn rq) (req_t0 rq) (req_tf rq) (req_y0 rq) = Inl err"
    unfolding solver_calls_function_def by blast
  with assms(2) have "solve_request L st = Inl (Uncaught err)"
    by (simp add: solve_request_def)
  then show ?thesis by (simp add: resolver_failure)
qed

text \<open>
  C10. The claim is about the texts the buttons can type, the only ones the read-only
  equation field ever holds (with a comma, which no button types, \<^verbatim>\<open>eval\<close> would
  evaluate a second expression and could raise \<^verbatim>\<open>NameError\<close> itself).

  \<^item> For such a text every character is one the scanner knows, and neither compiling
    nor the checks before the solver end in the unknown-name failure: the handler's
    \<^verbatim>\<open>except NameError\<close> is never taken.
  \<^item> Names do not matter to the compiler: when the tokens of one such text are those
    of another with other names written for its names, the one is a syntax error exactly
    when the other is, and otherwise compiles to the other's function with the names
    changed. So a text with names outside the whitelist compiles exactly when the text
    with \<^verbatim>\<open>t\<close> or \<^verbatim>\<open>y\<close> in their places does.
  \<^item> With a solver that calls the function at the initial point before it integrates,
    an exception raised by that first call is shown by the handler's outermost
    \<^verbatim>\<open>except\<close>, with its own text, and the stored solution is left as it was.
  \<^item> In particular, when the first name of the body that does not resolve is \<open>n\<close>
    and the body is that name alone, or no operation raises before the lookup, the
    handler shows Python's \<^verbatim>\<open>name 'n' is not defined\<close>.

  The limits CPython's compiler puts on the size of an expression (the depth of nested
  parentheses, the length of a chain of operators) are not modelled: no statement below
  says that a given text compiles.
\<close>

theorem unknown_names_surface_at_call:
  "(button_word (field_text (ecuacion_input st)) \<longrightarrow>
      (\<forall>c \<in> set (replace_caret (field_text (ecuacion_input st))). start_step c \<noteq> None)
      \<and> compile_equation (field_text (ecuacion_input st)) \<noteq> Inl (UnknownName m)
      \<and> validate_inputs L st \<noteq> Inl (UnknownName m))
   \<and> (button_word text \<and> button_word text'
      \<and> tokenize (replace_caret text) = Some ts
      \<and> tokenize (replace_caret text') = Some (map (rename_token f) ts) \<longrightarrow>
      (compile_equation text' = Inl SyntaxErr) = (compile_equation text = Inl SyntaxErr)
      \<and> (\<forall>body. compile_equation text = Inr (Lambda body) \<longrightarrow>
             compile_equation text' = Inr (Lambda (rename_expr f body))))
   \<and> (solver_calls_function L P \<and> validate_inputs L st = Inr rq
      \<and> isfinite (req_t0 rq) \<and> isfinite (req_y0 rq) \<and> isfinite (req_tf rq)
      \<and> first_call P (req_fn rq) (req_t0 rq) (req_y0 rq) = Inl err \<longrightarrow>
      resolver_ecuacion L st = show_error (py_str err) st
      \<and> current_solution (resolver_ecuacion L st) = current_solution st
      \<and> solution_params (resolver_ecuacion L st) = solution_params st)
   \<and> (solver_calls_function L P \<and> validate_inputs L st = Inr rq
      \<and> isfinite (req_t0 rq) \<and> isfinite (req_y0 rq) \<and> isfinite (req_tf rq)
      \<and> req_fn rq = Lambda expr \<and> (expr = Name n \<or> total_ops P)
      \<and> List.find (\<lambda>n. lookup_name P (of_float P (req_t0 rq)) (of_array P [req_y0 rq]) n = None)
           (names expr) = Some n \<longrightarrow>
      resolver_ecuacion L st = show_error (py_str (name_error n)) st)"
proof (intro conjI impI ballI allI)
  fix c
  assume "button_word (field_text (ecuacion_input st))"
     and "c \<in> set (replace_caret (field_text (ecuacion_input st)))"
  then show "start_step c \<noteq> None" by (rule button_word_known)
next
  show "compile_equation (field_text (ecuacion_input st)) \<noteq> Inl (UnknownName m)"
    using compile_equation_cases [of "field_text (ecuacion_input st)"] by auto
next
  show "validate_inputs L st \<noteq> Inl (UnknownName m)"
    using compile_equation_cases [of "field_text (ecuacion_input st)"]
    by (auto simp: validate_inputs_def split: option.splits if_splits)
next
  assume "button_word text \<and> button_word text'
      \<and> tokenize (replace_caret text) = Some ts
      \<and> tokenize (replace_caret text') = Some (map (rename_token f) ts)"
  then show "(compile_equation text' = Inl SyntaxErr) = (compile_equation text = Inl SyntaxErr)"
    using compile_equation_rename(1) by blast
next
  fix body
  assume "button_word text \<and> button_word text'
      \<and> tokenize (replace_caret text) = Some ts
      \<and> tokenize (replace_caret text') = Some (map (rename_token f) ts)"
     and "compile_equation text = Inr (Lambda body)"
  then show "compile_equation text' = Inr (Lambda (rename_expr f body))"
    using compile_equation_rename(2) by blast
next
  assume h: "solver_calls_function L P \<and> validate_inputs L st = Inr rq
      \<and> isfinite (req_t0 rq) \<and> isfinite (req_y0 rq) \<and> isfinite (req_tf rq)
      \<and> first_call P (req_fn rq) (req_t0 rq) (req_y0 rq) = Inl err"
  then have r: "resolver_ecuacion L st = show_error (py_str err) st"
    using first_call_shown by blast
  then show "resolver_ecuacion L st = show_error (py_str err) st" .
  from r show "current_solution (resolver_ecuacion L st) = current_solution st"
    by (simp add: show_error_def)
  from r show "solution_params (resolver_ecuacion L st) = solution_params st"
    by (simp add: show_error_def)
next
  assume h: "solver_calls_function L P \<and> validate_inputs L st = Inr rq
      \<and> isfinite (req_t0 rq) \<and> isfinite (req_y0 rq) \<and> isfinite (req_tf rq)
      \<and> req_fn rq = Lambda expr \<and> (expr = Name n \<or> total_ops P)
      \<and> List.find (\<lambda>n. lookup_name P (of_float P (req_t0 rq)) (of_array P [req_y0 rq]) n = None)
           (names expr) = Some n"
  then have "first_call P (req_fn rq) (req_t0 rq) (req_y0 rq) = Inl (name_error n)"
    using first_call_unresolved [of expr n P "req_t0 rq" "req_y0 rq"] by simp
  with h show "resolver_ecuacion L st = show_error (py_str (name_error n)) st"
    using first_call_shown by blast
qed

theorem unknown_names_surface_at_call_witness:
  \<open>button_word ''ty''
   \<and> start_step CHR ''t'' \<noteq> None \<and> start_step CHR ''y'' \<noteq> None
   \<and> validate_inputs lib1 (with_inputs ''ty'' ''0'' ''1'' ''1'') \<noteq> Inl (UnknownName ''ty'')
   \<and> button_word ''t+y'' \<and> button_word ''ty+y''
   \<and> compile_equation ''t+y'' = Inr (Lambda (BinOp (Name ''t'') Add (Name ''y'')))
   \<and> compile_equation ''ty+y'' = Inr (Lambda (BinOp (Name ''ty'') Add (Name ''y'')))
   \<and> first_call int_ops (Lambda (Name ''ty'')) (Finite 0) (Finite 1) = Inl (name_error ''ty'')
   \<and> resolver_ecuacion lib1 (with_inputs ''ty'' ''0'' ''1'' ''1'')
       = show_error (''name '' @ [CHR 0x27] @ ''ty'' @ [CHR 0x27] @ '' is not defined'')
           (with_inputs ''ty'' ''0'' ''1'' ''1'')
   \<and> current_solution (resolver_ecuacion lib1 (with_inputs ''ty'' ''0'' ''1'' ''1'')) = None\<close>
proof -
  let ?st = "with_inputs ''ty'' ''0'' ''1'' ''1'' :: constant_solution calc_state"
  let ?rq = "\<lparr>req_fn = Lambda (Name ''ty''), req_t0 = Finite 0, req_y0 = Finite 1,
               req_tf = Finite 1, req_text = ''ty''\<rparr>"
  let ?f = "\<lambda>n. if n = ''t'' then ''ty'' else n"
  let ?ts = "[NAME ''t'', PLUS, NAME ''y'']"
  note T = unknown_names_surface_at_call
  have bw: "button_word (field_text (ecuacion_input ?st))"
    by (simp add: with_inputs_def button_word_ty)
  have tx: "field_text (ecuacion_input ?st) = ''ty''"
    by (simp add: with_inputs_def)
  from T [THEN conjunct1, THEN mp, OF bw]
  have 1: "\<forall>c \<in> set (replace_caret (field_text (ecuacion_input ?st))). start_step c \<noteq> None"
    and 2: "validate_inputs lib1 ?st \<noteq> Inl (UnknownName ''ty'')"
    by blast+
  from 1 have 1: "start_step CHR ''t'' \<noteq> None \<and> start_step CHR ''y'' \<noteq> None"
    unfolding tx by simp
  have t1: "tokenize (replace_caret ''t+y'') = Some ?ts"
    by (simp add: eval_defs)
  have t2: "tokenize (replace_caret ''ty+y'') = Some (map (rename_token ?f) ?ts)"
    by (simp add: eval_defs)
  have c1: "compile_equation ''t+y'' = Inr (Lambda (BinOp (Name ''t'') Add (Name ''y'')))"
    by (simp add: eval_defs)
  have b1: "button_word ''t+y''"
    using button_word.press [OF button_word.press [OF button_word_t, of "''+''"], of "''y''"]
    by (simp add: botones_def)
  have b2: "button_word ''ty+y''"
    using button_word.press [OF button_word.press [OF button_word_ty, of "''+''"], of "''y''"]
    by (simp add: botones_def)
  from T [THEN conjunct2, THEN conjunct1, THEN mp, OF conjI [OF b1 conjI [OF b2 conjI [OF t1 t2]]],
      THEN conjunct2, THEN spec, THEN mp, OF c1]
  have c2: "compile_equation ''ty+y'' = Inr (Lambda (BinOp (Name ''ty'') Add (Name ''y'')))"
    by simp
  have v: "validate_inputs lib1 ?st = Inr ?rq"
    by (simp add: eval_defs lib1_fields)
  have l: "List.find (\<lambda>n. lookup_name int_ops (of_float int_ops (req_t0 ?rq))
                          (of_array int_ops [req_y0 ?rq]) n = None) (names (Name ''ty''))
             = Some ''ty''"
    by (simp add: lookup_name_def eval_globals_def int_ops_def)
  have fc: "first_call int_ops (Lambda (Name ''ty'')) (Finite 0) (Finite 1)
              = Inl (name_error ''ty'')"
    by (simp add: first_call_def lookup_name_def eval_globals_def int_ops_def)
  have h: "solver_calls_function lib1 int_ops \<and> validate_inputs lib1 ?st = Inr ?rq
      \<and> isfinite (req_t0 ?rq) \<and> isfinite (req_y0 ?rq) \<and> isfinite (req_tf ?rq)
      \<and> req_fn ?rq = Lambda (Name ''ty'') \<and> (Name ''ty'' = Name ''ty'' \<or> total_ops int_ops)
      \<and> List.find (\<lambda>n. lookup_name int_ops (of_float int_ops (req_t0 ?rq))
                          (of_array int_ops [req_y0 ?rq]) n = None) (names (Name ''ty''))
           = Some ''ty''"
    using solver_calls_function_lib1 v l by simp
  from T [THEN conjunct2, THEN conjunct2, THEN conjunct2, THEN mp, OF h]
  have r: "resolver_ecuacion lib1 ?st
             = show_error (''name '' @ [CHR 0x27] @ ''ty'' @ [CHR 0x27] @ '' is not defined'') ?st"
    by (simp add: name_error_def)
  have h3: "solver_calls_function lib1 int_ops \<and> validate_inputs lib1 ?st = Inr ?rq
      \<and> isfinite (req_t0 ?rq) \<and> isfinite (req_y0 ?rq) \<and> isfinite (req_tf ?rq)
      \<and> first_call int_ops (req_fn ?rq) (req_t0 ?rq) (req_y0 ?rq) = Inl (name_error ''ty'')"
    using solver_calls_function_lib1 v fc by simp
  from T [THEN conjunct2, THEN conjunct2, THEN conjunct1, THEN mp, OF h3]
  have "current_solution (resolver_ecuacion lib1 ?st) = current_solution ?st"
    by blast
  then have s: "current_solution (resolver_ecuacion lib1 ?st) = None"
    by (simp add: with_inputs_def estado_inicial_def)
  from button_word_ty 1 2 b1 b2 c1 c2 fc r s show ?thesis by blast
qed
section \<open>Sampling the stored solution\<close>















section \<open>What the export and the image leave unchanged\<close>

lemma worker_keeps:
  "current_solution (worker L st) = current_solution st"
  "solution_params (worker L st) = solution_params st"
  by (simp_all add: worker_def Let_def split: option.splits prod.splits)

lemma mostrar_keeps:
  "current_solution (mostrar_grafica_externa L st) = current_solution st"
  "solution_params (mostrar_grafica_externa L st) = solution_params st"
  by (simp_all add: mostrar_grafica_externa_def worker_keeps show_error_keeps)

lemma crear_depends:
  "current_solution st' = current_solution st \<Longrightarrow> solution_params st' = solution_params st
   \<Longrightarrow> crear_grafica_externa L st' = crear_grafica_externa L st"
  by (simp add: crear_grafica_externa_def)

lemma render_image_keeps:
  "current_solution (render_image L rq sol st) = current_solution st"
  "solution_params (render_image L rq sol st) = solution_params st"
  by (simp_all add: render_image_def show_error_def Let_def split: sum.splits option.splits prod.splits)

lemma store_solution_sets:
  "current_solution (store_solution L rq sol st) = Some sol"
  "solution_params (store_solution L rq sol st)
     = \<lparr>param_t0 = req_t0 rq, param_tf = req_tf rq, param_equation = req_text rq\<rparr>"
  by (simp_all add: store_solution_def show_success_def Let_def)

lemma resolver_success:
  "solve_request L st = Inr (rq, sol) \<Longrightarrow>
     resolver_ecuacion L st = render_image L rq sol (store_solution L rq sol st)"
  by (simp add: resolver_ecuacion_def)


section \<open>Clearing\<close>

text \<open>
  C9. In every state, after \<^verbatim>\<open>limpiar_ecuacion\<close> no solution is stored, and asking
  for the external chart fails with the message that nothing has been solved; no chart
  document is produced.
\<close>

theorem clear_then_export_fails:
  "current_solution (limpiar_ecuacion st) = None
   \<and> crear_grafica_externa L (limpiar_ecuacion st) = None
   \<and> mostrar_grafica_externa L (limpiar_ecuacion st)
       = show_error msg_no_solution (limpiar_ecuacion st)"
  by (simp add: limpiar_ecuacion_def crear_grafica_externa_def mostrar_grafica_externa_def)

end
